theory Spec2Isabelle
  imports Complex_Main
begin

section \<open>Numbers of the planner\<close>

text \<open>
  The planner computes with C++ \<open>int\<close> (32 bits), \<open>int64_t\<close> parameter values,
  \<open>float\<close> (IEEE binary32) and \<open>double\<close> (IEEE binary64). Integers are modelled by
  \<open>int\<close> with the narrowing written out. A floating-point value is a rational, an
  infinity or a NaN; every operation rounds its exact result to the nearest value of its
  format, ties to the even significand. Signed zeros are identified.
\<close>

text \<open>Conversion of an \<open>int64_t\<close> to \<open>int\<close>: the low 32 bits, read as two's complement.\<close>

definition to_int32 :: "int \<Rightarrow> int" where
  "to_int32 v = (v + 2147483648) mod 4294967296 - 2147483648"

text \<open>\<open>std::numeric_limits<int>::max()\<close>\<close>

definition INT_MAX :: int where
  "INT_MAX = 2147483647"

definition INT_MIN :: int where
  "INT_MIN = - 2147483648"

text \<open>The C++ remainder \<open>a % b\<close>: it has the sign of the dividend.\<close>

definition cpp_rem :: "int \<Rightarrow> int \<Rightarrow> int" where
  "cpp_rem a b = sgn a * (\<bar>a\<bar> mod \<bar>b\<bar>)"

datatype fp = Fin rat | PInf | NInf | NaN

type_synonym double = fp
type_synonym float = fp

fun ilog2 :: "nat \<Rightarrow> nat" where
  "ilog2 n = (if n < 2 then 0 else Suc (ilog2 (n div 2)))"

declare ilog2.simps [simp del]

text \<open>\<open>pow2 e\<close> is \<open>2\<close> to the power \<open>e\<close>, for an integer \<open>e\<close>.\<close>

definition pow2 :: "int \<Rightarrow> rat" where
  "pow2 e = (if 0 \<le> e then 2 ^ nat e else 1 / 2 ^ nat (- e))"

text \<open>The binary exponent of a positive rational: the \<open>e\<close> with \<open>2^e \<le> x < 2^(e+1)\<close>.\<close>

definition expo :: "rat \<Rightarrow> int" where
  "expo x =
     (if 1 \<le> x then int (ilog2 (nat \<lfloor>x\<rfloor>))
      else (let m = nat \<lceil>1 / x\<rceil> in - int (if m \<le> 1 then 0 else Suc (ilog2 (m - 1)))))"

text \<open>Rounding to the nearest integer, ties to the even one.\<close>

definition ties_even :: "rat \<Rightarrow> int" where
  "ties_even x =
     (let f = \<lfloor>x\<rfloor>; d = x - of_int f
      in if d < 1 / 2 then f else if 1 / 2 < d then f + 1 else if even f then f else f + 1)"

text \<open>
  \<open>fl_round p emin emax x\<close> rounds the exact value \<open>x\<close> to the format with \<open>p\<close>
  significand bits and exponents from \<open>emin\<close> to \<open>emax\<close>; a result beyond the largest
  finite value is an infinity.
\<close>

definition fl_round :: "nat \<Rightarrow> int \<Rightarrow> int \<Rightarrow> rat \<Rightarrow> fp" where
  "fl_round p emin emax x =
     (if x = 0 then Fin 0
      else (let e = max (expo \<bar>x\<bar>) emin;
                ulp = pow2 (e - (int p - 1));
                r = of_int (ties_even (x / ulp)) * ulp
            in if pow2 (emax + 1) \<le> \<bar>r\<bar> then (if 0 < x then PInf else NInf) else Fin r))"

definition round32 :: "rat \<Rightarrow> fp" where
  "round32 x = fl_round 24 (- 126) 127 x"

definition round64 :: "rat \<Rightarrow> fp" where
  "round64 x = fl_round 53 (- 1022) 1023 x"

text \<open>\<open>static_cast<float>(d)\<close> of a double \<open>d\<close>.\<close>

fun to_float :: "double \<Rightarrow> float" where
  "to_float (Fin x) = round32 x"
| "to_float v = v"

text \<open>IEEE division, before rounding: the exact quotient or a special value.\<close>

fun fp_div :: "(rat \<Rightarrow> fp) \<Rightarrow> fp \<Rightarrow> fp \<Rightarrow> fp" where
  "fp_div rnd NaN _ = NaN"
| "fp_div rnd _ NaN = NaN"
| "fp_div rnd (Fin a) (Fin b) =
     (if b = 0 then (if a = 0 then NaN else if 0 < a then PInf else NInf) else rnd (a / b))"
| "fp_div rnd (Fin a) _ = Fin 0"
| "fp_div rnd PInf (Fin b) = (if 0 \<le> b then PInf else NInf)"
| "fp_div rnd NInf (Fin b) = (if 0 \<le> b then NInf else PInf)"
| "fp_div rnd _ _ = NaN"

fun fp_add :: "(rat \<Rightarrow> fp) \<Rightarrow> fp \<Rightarrow> fp \<Rightarrow> fp" where
  "fp_add rnd NaN _ = NaN"
| "fp_add rnd _ NaN = NaN"
| "fp_add rnd (Fin a) (Fin b) = rnd (a + b)"
| "fp_add rnd (Fin a) v = v"
| "fp_add rnd v (Fin b) = v"
| "fp_add rnd PInf PInf = PInf"
| "fp_add rnd NInf NInf = NInf"
| "fp_add rnd _ _ = NaN"

fun fp_neg :: "fp \<Rightarrow> fp" where
  "fp_neg (Fin a) = Fin (- a)"
| "fp_neg PInf = NInf"
| "fp_neg NInf = PInf"
| "fp_neg NaN = NaN"

text \<open>
  \<open>static_cast<int>(f)\<close>: the value truncated towards zero. The behaviour is undefined
  (\<open>None\<close>) when the truncated value is not an \<open>int\<close>, and for infinities and NaN.
\<close>

definition trunc_rat :: "rat \<Rightarrow> int" where
  "trunc_rat x = (if 0 \<le> x then \<lfloor>x\<rfloor> else \<lceil>x\<rceil>)"

fun to_int :: "fp \<Rightarrow> int option" where
  "to_int (Fin x) =
     (let n = trunc_rat x in if INT_MIN \<le> n \<and> n \<le> INT_MAX then Some n else None)"
| "to_int _ = None"

text \<open>\<open>static_cast<float>(n)\<close> of an \<open>int\<close> \<open>n\<close>.\<close>

definition of_int32 :: "int \<Rightarrow> float" where
  "of_int32 n = round32 (of_int n)"


section \<open>Data of the planner\<close>

text \<open>\<open>rclcpp::Parameter\<close>: a name and a typed value (\<open>as_int\<close> is an \<open>int64_t\<close>).\<close>

datatype ParameterType =
  PARAMETER_NOT_SET | PARAMETER_BOOL | PARAMETER_INTEGER | PARAMETER_DOUBLE | PARAMETER_STRING
  | PARAMETER_OTHER

datatype ParameterValue =
  NotSet | BoolValue bool | IntegerValue int | DoubleValue double | StringValue string
  | OtherValue

record Parameter =
  get_name :: string
  get_value :: ParameterValue

fun type_of_value :: "ParameterValue \<Rightarrow> ParameterType" where
  "type_of_value NotSet = PARAMETER_NOT_SET"
| "type_of_value (BoolValue _) = PARAMETER_BOOL"
| "type_of_value (IntegerValue _) = PARAMETER_INTEGER"
| "type_of_value (DoubleValue _) = PARAMETER_DOUBLE"
| "type_of_value (StringValue _) = PARAMETER_STRING"
| "type_of_value OtherValue = PARAMETER_OTHER"

definition get_type :: "Parameter \<Rightarrow> ParameterType" where
  "get_type p = type_of_value (get_value p)"

datatype MotionModel = UNKNOWN | VON_NEUMANN | MOORE | DUBIN | REEDS_SHEPP | STATE_LATTICE

record LatticeMetadata =
  min_turning_radius :: float
  number_of_headings :: nat

record SearchInfo =
  minimum_turning_radius :: float
  non_straight_penalty :: float
  change_penalty :: float
  reverse_penalty :: float
  cost_penalty :: float
  analytic_expansion_ratio :: float
  lattice_filepath :: string
  cache_obstacle_heuristic :: bool
  allow_reverse_expansion :: bool

text \<open>
  The search engine \<open>AStarAlgorithm<NodeLattice>\<close> is held as the arguments of its
  constructor and of \<open>initialize\<close>; \<open>getMaxIterations\<close> reads \<open>a_max_iterations\<close>.
\<close>

record AStarAlgorithm =
  a_motion_model :: MotionModel
  a_search_info :: SearchInfo
  a_allow_unknown :: bool
  a_max_iterations :: int
  a_max_on_approach_iterations :: int
  a_max_planning_time :: double
  a_lookup_table_size :: float
  a_dim_3_size :: nat

text \<open>
  The smoother is held as its \<open>SmootherParams\<close> (read from the node, of a type \<open>'sp\<close>
  left open) and the argument of \<open>initialize\<close>.
\<close>

record 'sp Smoother =
  sm_params :: 'sp
  sm_min_turning_radius :: float

record 'sp SmacPlannerLattice =
  a_star :: "AStarAlgorithm option"
  smoother :: "'sp Smoother option"
  plugin_name :: string
  global_frame :: string
  allow_unknown :: bool
  max_iterations :: int
  max_planning_time :: double
  lookup_table_size :: double
  search_info :: SearchInfo
  metadata :: LatticeMetadata
  motion_model :: MotionModel

text \<open>
  What the planner reads from its collaborators while it is configured: the costmap's
  resolution and frame, the share directory of the package, the smoother parameters of the
  node, and the lattice files (\<open>lattice_files\<close> gives the metadata of the files that
  load, and \<open>None\<close> for the others).
\<close>

record 'sp Collaborators =
  getResolution :: double
  getGlobalFrameID :: string
  share_directory :: string
  smoother_params :: 'sp
  lattice_files :: "string \<Rightarrow> LatticeMetadata option"

text \<open>
  How a call ends when it does not return: with the exception of a lattice file that does
  not load, in undefined behaviour, or with an exception (held as its message) that the
  call does not catch and that reaches the caller.
\<close>

datatype fault = LoadError string | UndefinedBehaviour | UncaughtException string

text \<open>
  Modelled from the spec: \<open>LatticeMotionTable::getLatticeMetadata\<close> is not part of
  the sources at hand. The spec says that loading "fails with a LoadError if the file is
  missing, malformed, or heading-bin count is non-positive", and gives the metadata
  otherwise.
\<close>

definition getLatticeMetadata :: "'sp Collaborators \<Rightarrow> string \<Rightarrow> fault + LatticeMetadata" where
  "getLatticeMetadata env path =
     (case lattice_files env path of None \<Rightarrow> Inl (LoadError path) | Some m \<Rightarrow> Inr m)"

section \<open>Derived quantities\<close>

text \<open>
  \<open>_metadata.min_turning_radius / (_costmap->getResolution())\<close>: a \<open>float\<close> divided
  by a \<open>double\<close> is a division of doubles; the quotient is stored in a \<open>float\<close>.
\<close>

definition grid_turning_radius :: "float \<Rightarrow> double \<Rightarrow> float" where
  "grid_turning_radius r resolution = to_float (fp_div round64 r resolution)"

text \<open>
  The dimension of the heuristic lookup table, lines 118 to 132 and 379 to 393:
  the quotient of the two values as floats, made whole by a conversion to \<open>int\<close> and
  back, and increased by \<open>1.0\<close> (an addition of doubles, stored in a \<open>float\<close>) when the
  whole number is even.
\<close>

definition lookup_table_dim :: "double \<Rightarrow> double \<Rightarrow> float option" where
  "lookup_table_dim table_size resolution =
     (case to_int (fp_div round32 (to_float table_size) (to_float resolution)) of
        None \<Rightarrow> None
      | Some n \<Rightarrow>
          (let dim = of_int32 n
           in case to_int dim of
                None \<Rightarrow> None
              | Some m \<Rightarrow>
                  if cpp_rem m 2 = 0 then Some (to_float (fp_add round64 dim (Fin 1)))
                  else Some dim))"

text \<open>The iteration budget: a value that is not positive becomes the largest \<open>int\<close>.\<close>

definition normalize_max_iterations :: "int \<Rightarrow> int" where
  "normalize_max_iterations n = (if n \<le> 0 then INT_MAX else n)"


section \<open>\<open>SmacPlannerLattice::configure\<close>\<close>

text \<open>
  The parameters of the node under the planner's name, as \<open>get_parameter\<close> finds them;
  \<open>None\<close> is a parameter that nobody has declared, for which
  \<open>declare_parameter_if_not_declared\<close> installs the default of the source.
\<close>

record NodeParameters =
  p_allow_unknown :: "bool option"
  p_max_iterations :: "int option"
  p_lattice_filepath :: "string option"
  p_cache_obstacle_heuristic :: "bool option"
  p_reverse_penalty :: "double option"
  p_change_penalty :: "double option"
  p_non_straight_penalty :: "double option"
  p_cost_penalty :: "double option"
  p_analytic_expansion_ratio :: "double option"
  p_max_planning_time :: "double option"
  p_lookup_table_size :: "double option"
  p_allow_reverse_expansion :: "bool option"

definition declared_or :: "'a \<Rightarrow> 'a option \<Rightarrow> 'a" where
  "declared_or dflt v = (case v of None \<Rightarrow> dflt | Some x \<Rightarrow> x)"

text \<open>The engine built from the planner's fields, lines 148 to 155 and 406 to 413.\<close>

definition make_a_star :: "'sp SmacPlannerLattice \<Rightarrow> float \<Rightarrow> AStarAlgorithm" where
  "make_a_star s lookup_dim =
     \<lparr> a_motion_model = motion_model s,
       a_search_info = search_info s,
       a_allow_unknown = allow_unknown s,
       a_max_iterations = max_iterations s,
       a_max_on_approach_iterations = INT_MAX,
       a_max_planning_time = max_planning_time s,
       a_lookup_table_size = lookup_dim,
       a_dim_3_size = number_of_headings (metadata s) \<rparr>"

definition make_smoother :: "'sp Collaborators \<Rightarrow> 'sp SmacPlannerLattice \<Rightarrow> 'sp Smoother" where
  "make_smoother env s =
     \<lparr> sm_params = smoother_params env,
       sm_min_turning_radius = min_turning_radius (metadata s) \<rparr>"

text \<open>
  \<open>configure\<close> ends with the configured planner, or with a fault: the exception of a
  lattice file that does not load, or the undefined conversion of the table dimension.
\<close>

definition configure ::
  "'sp Collaborators \<Rightarrow> NodeParameters \<Rightarrow> string \<Rightarrow> 'sp SmacPlannerLattice
     \<Rightarrow> fault + 'sp SmacPlannerLattice" where
  "configure env node name s0 =
     (let s1 = s0\<lparr> plugin_name := name, global_frame := getGlobalFrameID env \<rparr>;
          s2 = s1\<lparr> allow_unknown := declared_or True (p_allow_unknown node),
                    max_iterations := to_int32 (declared_or 1000000 (p_max_iterations node)) \<rparr>;
          info = (search_info s2)
            \<lparr> lattice_filepath :=
                declared_or (share_directory env @ ''/default_model.json'')
                  (p_lattice_filepath node),
              cache_obstacle_heuristic := declared_or False (p_cache_obstacle_heuristic node),
              reverse_penalty := to_float (declared_or (Fin 2) (p_reverse_penalty node)),
              change_penalty := to_float (declared_or (Fin (5 / 100)) (p_change_penalty node)),
              non_straight_penalty :=
                to_float (declared_or (Fin (105 / 100)) (p_non_straight_penalty node)),
              cost_penalty := to_float (declared_or (Fin 2) (p_cost_penalty node)),
              analytic_expansion_ratio :=
                to_float (declared_or (Fin (35 / 10)) (p_analytic_expansion_ratio node)) \<rparr>;
          s3 = s2\<lparr> search_info := info,
                    max_planning_time := declared_or (Fin 5) (p_max_planning_time node),
                    lookup_table_size := declared_or (Fin 20) (p_lookup_table_size node) \<rparr>;
          s4 = s3\<lparr> search_info := (search_info s3)
                    \<lparr> allow_reverse_expansion :=
                        declared_or False (p_allow_reverse_expansion node) \<rparr> \<rparr>
      in case getLatticeMetadata env (lattice_filepath (search_info s4)) of
           Inl e \<Rightarrow> Inl e
         | Inr m \<Rightarrow>
             (let s5 = s4\<lparr> metadata := m \<rparr>;
                  s6 = s5\<lparr> search_info := (search_info s5)
                         \<lparr> minimum_turning_radius :=
                             grid_turning_radius (min_turning_radius (metadata s5))
                               (getResolution env) \<rparr>,
                       motion_model := STATE_LATTICE \<rparr>;
                  s7 = s6\<lparr> max_iterations := normalize_max_iterations (max_iterations s6) \<rparr>
              in case lookup_table_dim (lookup_table_size s7) (getResolution env) of
                   None \<Rightarrow> Inl UndefinedBehaviour
                 | Some lookup_dim \<Rightarrow>
                     Inr (s7\<lparr> a_star := Some (make_a_star s7 lookup_dim),
                              smoother := Some (make_smoother env s7) \<rparr>)))"


text \<open>
  The assignments of \<open>configure\<close> gathered in one update, for a lattice file whose
  metadata is \<open>m\<close>; \<open>configure_eq\<close> below shows that \<open>configure\<close> computes this.
\<close>

definition configured ::
  "'sp Collaborators \<Rightarrow> NodeParameters \<Rightarrow> string \<Rightarrow> 'sp SmacPlannerLattice
     \<Rightarrow> LatticeMetadata \<Rightarrow> 'sp SmacPlannerLattice" where
  "configured env node name s0 m =
     s0\<lparr> plugin_name := name,
         global_frame := getGlobalFrameID env,
         allow_unknown := declared_or True (p_allow_unknown node),
         max_iterations :=
           normalize_max_iterations (to_int32 (declared_or 1000000 (p_max_iterations node))),
         max_planning_time := declared_or (Fin 5) (p_max_planning_time node),
         lookup_table_size := declared_or (Fin 20) (p_lookup_table_size node),
         search_info :=
           \<lparr> minimum_turning_radius =
               grid_turning_radius (min_turning_radius m) (getResolution env),
             non_straight_penalty =
               to_float (declared_or (Fin (105 / 100)) (p_non_straight_penalty node)),
             change_penalty = to_float (declared_or (Fin (5 / 100)) (p_change_penalty node)),
             reverse_penalty = to_float (declared_or (Fin 2) (p_reverse_penalty node)),
             cost_penalty = to_float (declared_or (Fin 2) (p_cost_penalty node)),
             analytic_expansion_ratio =
               to_float (declared_or (Fin (35 / 10)) (p_analytic_expansion_ratio node)),
             lattice_filepath =
               declared_or (share_directory env @ ''/default_model.json'')
                 (p_lattice_filepath node),
             cache_obstacle_heuristic = declared_or False (p_cache_obstacle_heuristic node),
             allow_reverse_expansion = declared_or False (p_allow_reverse_expansion node) \<rparr>,
         metadata := m,
         motion_model := STATE_LATTICE \<rparr>"

section \<open>\<open>SmacPlannerLattice::dynamicParametersCallback\<close>\<close>

text \<open>
  The state of the loop over the parameters: the planner and the two flags
  \<open>reinit_a_star\<close> and \<open>reinit_smoother\<close>. An exception leaves the loop with the
  planner as it is at the throw.
\<close>

type_synonym 'sp loop_state = "'sp SmacPlannerLattice \<times> bool \<times> bool"

definition set_info ::
  "(SearchInfo \<Rightarrow> SearchInfo) \<Rightarrow> 'sp SmacPlannerLattice \<Rightarrow> 'sp SmacPlannerLattice" where
  "set_info f s = s\<lparr> search_info := f (search_info s) \<rparr>"

definition update_parameter ::
  "'sp Collaborators \<Rightarrow> Parameter \<Rightarrow> 'sp loop_state
     \<Rightarrow> (fault \<times> 'sp SmacPlannerLattice) + 'sp loop_state" where
  "update_parameter env parameter st =
     (case st of (s, reinit_a_star, reinit_smoother) \<Rightarrow>
      (let name = get_name parameter in
       case get_value parameter of
         DoubleValue d \<Rightarrow>
           if name = plugin_name s @ ''.max_planning_time'' then
             Inr (s\<lparr> max_planning_time := d \<rparr>, True, reinit_smoother)
           else if name = plugin_name s @ ''.lookup_table_size'' then
             Inr (s\<lparr> lookup_table_size := d \<rparr>, True, reinit_smoother)
           else if name = plugin_name s @ ''.reverse_penalty'' then
             Inr (set_info (\<lambda>i. i\<lparr> reverse_penalty := to_float d \<rparr>) s, True, reinit_smoother)
           else if name = plugin_name s @ ''.change_penalty'' then
             Inr (set_info (\<lambda>i. i\<lparr> change_penalty := to_float d \<rparr>) s, True, reinit_smoother)
           else if name = plugin_name s @ ''.non_straight_penalty'' then
             Inr (set_info (\<lambda>i. i\<lparr> non_straight_penalty := to_float d \<rparr>) s, True,
                  reinit_smoother)
           else if name = plugin_name s @ ''.cost_penalty'' then
             Inr (set_info (\<lambda>i. i\<lparr> cost_penalty := to_float d \<rparr>) s, True, reinit_smoother)
           else if name = plugin_name s @ ''.analytic_expansion_ratio'' then
             Inr (set_info (\<lambda>i. i\<lparr> analytic_expansion_ratio := to_float d \<rparr>) s, True,
                  reinit_smoother)
           else Inr st
       | BoolValue b \<Rightarrow>
           if name = plugin_name s @ ''.allow_unknown'' then
             Inr (s\<lparr> allow_unknown := b \<rparr>, True, reinit_smoother)
           else if name = plugin_name s @ ''.cache_obstacle_heuristic'' then
             Inr (set_info (\<lambda>i. i\<lparr> cache_obstacle_heuristic := b \<rparr>) s, True, reinit_smoother)
           else if name = plugin_name s @ ''.allow_reverse_expansion'' then
             Inr (set_info (\<lambda>i. i\<lparr> allow_reverse_expansion := b \<rparr>) s, True, reinit_smoother)
           else Inr st
       | IntegerValue i \<Rightarrow>
           if name = plugin_name s @ ''.max_iterations'' then
             Inr (s\<lparr> max_iterations := normalize_max_iterations (to_int32 i) \<rparr>, True,
                  reinit_smoother)
           else Inr st
       | StringValue path \<Rightarrow>
           if name = plugin_name s @ ''.lattice_filepath'' then
             (let s1 = set_info (\<lambda>i. i\<lparr> lattice_filepath := path \<rparr>) s
              in case getLatticeMetadata env (lattice_filepath (search_info s1)) of
                   Inl e \<Rightarrow> Inl (e, s1)
                 | Inr m \<Rightarrow>
                     (let s2 = s1\<lparr> metadata := m \<rparr>
                      in Inr (set_info (\<lambda>i. i\<lparr> minimum_turning_radius :=
                                 grid_turning_radius (min_turning_radius (metadata s2))
                                   (getResolution env) \<rparr>) s2,
                              True, True)))
           else Inr st
       | _ \<Rightarrow> Inr st))"

fun update_parameters ::
  "'sp Collaborators \<Rightarrow> Parameter list \<Rightarrow> 'sp loop_state
     \<Rightarrow> (fault \<times> 'sp SmacPlannerLattice) + 'sp loop_state" where
  "update_parameters env [] st = Inr st"
| "update_parameters env (parameter # parameters) st =
     (case update_parameter env parameter st of
        Inl e \<Rightarrow> Inl e
      | Inr st' \<Rightarrow> update_parameters env parameters st')"

text \<open>
  The re-initialisation after the loop, lines 374 to 415. The stored turning radius is
  divided by the resolution (line 377) whatever parameter has asked for the rebuild.
\<close>

definition reinitialize ::
  "'sp Collaborators \<Rightarrow> 'sp loop_state
     \<Rightarrow> (fault \<times> 'sp SmacPlannerLattice) + 'sp SmacPlannerLattice" where
  "reinitialize env st =
     (case st of (s, reinit_a_star, reinit_smoother) \<Rightarrow>
      if reinit_a_star \<or> reinit_smoother then
        (let s1 = set_info (\<lambda>i. i\<lparr> minimum_turning_radius :=
                     grid_turning_radius (minimum_turning_radius (search_info s))
                       (getResolution env) \<rparr>) s
         in case lookup_table_dim (lookup_table_size s1) (getResolution env) of
              None \<Rightarrow> Inl (UndefinedBehaviour, s1)
            | Some lookup_dim \<Rightarrow>
                (let s2 = (if reinit_smoother
                           then s1\<lparr> smoother := Some (make_smoother env s1) \<rparr> else s1);
                     s3 = (if reinit_a_star
                           then s2\<lparr> a_star := Some (make_a_star s2 lookup_dim) \<rparr> else s2)
                 in Inr s3))
      else Inr s)"

record SetParametersResult =
  successful :: bool

text \<open>
  The callback, under the lock \<open>_mutex\<close> from its first statement to its return: the
  planner after the call, and the result or the fault that ends it.
\<close>

definition dynamicParametersCallback ::
  "'sp Collaborators \<Rightarrow> Parameter list \<Rightarrow> 'sp SmacPlannerLattice
     \<Rightarrow> 'sp SmacPlannerLattice \<times> (fault + SetParametersResult)" where
  "dynamicParametersCallback env parameters s =
     (case update_parameters env parameters (s, False, False) of
        Inl (e, s') \<Rightarrow> (s', Inl e)
      | Inr st \<Rightarrow>
          (case reinitialize env st of
             Inl (e, s') \<Rightarrow> (s', Inl e)
           | Inr s' \<Rightarrow> (s', Inr \<lparr> successful = True \<rparr>)))"


section \<open>\<open>SmacPlannerLattice::createPlan\<close>\<close>

type_synonym Quaternion = "double \<times> double \<times> double \<times> double"

record Header =
  stamp :: int
  frame_id :: string

record Pose =
  position_x :: double
  position_y :: double
  position_z :: double
  orientation :: Quaternion

record PoseStamped =
  pose_header :: Header
  pose :: Pose

record Path =
  header :: Header
  poses :: "PoseStamped list"

text \<open>\<open>NodeLattice::Coordinates\<close>\<close>

record Coordinates =
  coord_x :: float
  coord_y :: float
  coord_theta :: float

text \<open>
  What the engine does in the calls of one planning call, lines 213 to 245.
  \<^item> \<open>SetupThrows\<close>: \<open>setStart\<close> or \<open>setGoal\<close>, which are called before the \<open>try\<close>
    block, throws an exception of any class.
  \<^item> \<open>Throws\<close>: \<open>createPath(path, num_iterations, 0)\<close> throws a \<open>std::runtime_error\<close>,
    or an exception of a class derived from it.
  \<^item> \<open>ThrowsOther\<close>: \<open>createPath\<close> throws an exception of another class, such as
    \<open>std::invalid_argument\<close> or \<open>std::bad_alloc\<close>.
  \<^item> \<open>Returns\<close>: \<open>createPath\<close> returns its boolean, with the path and the number of
    iterations it has written through its reference arguments.

  An exception is held as its message.
\<close>

datatype SearchReturn =
  Throws string | Returns bool "Coordinates list" int | ThrowsOther string | SetupThrows string

text \<open>
  The collaborators of one planning call: the two clocks (the stamp of \<open>_clock->now()\<close>
  and the seconds between the two readings of the steady clock), the costmap's
  conversion (\<open>None\<close> when it reports a point off the grid and writes no cell), the
  heading bin of an orientation, the calls to the engine in use (\<open>createPath\<close>, with
  \<open>setStart\<close> and \<open>setGoal\<close> before it), the conversions back to the world, the
  subscribers of the raw plan and the smoother.
\<close>

record 'sp PlanningContext =
  clock_now :: int
  time_span :: double
  worldToMap :: "double \<Rightarrow> double \<Rightarrow> (nat \<times> nat) option"
  unset_cell :: "nat \<times> nat"
  getClosestAngularBin :: "Quaternion \<Rightarrow> nat"
  createPath :: "AStarAlgorithm \<Rightarrow> nat \<times> nat \<times> nat \<Rightarrow> nat \<times> nat \<times> nat \<Rightarrow> SearchReturn"
  getWorldCoords :: "float \<Rightarrow> float \<Rightarrow> Pose"
  getWorldOrientation :: "float \<Rightarrow> Quaternion"
  get_subscription_count :: nat
  smooth :: "'sp Smoother \<Rightarrow> Path \<Rightarrow> double \<Rightarrow> Path"

text \<open>
  One run of \<open>createPlan\<close>: the path it returns, the warning it logs, the raw plan it
  publishes, and the time budget it hands to the smoother when it calls it.
\<close>

record PlanRun =
  returned :: Path
  logged_warning :: "string option"
  published_raw :: "Path option"
  smoother_budget :: "double option"

text \<open>
  Lines 213 to 255: the calls to the engine, with the \<open>try\<close> block and its one handler,
  \<open>catch (const std::runtime_error & e)\<close>. An exception of \<open>setStart\<close> or \<open>setGoal\<close>,
  and an exception of \<open>createPath\<close> that the handler does not catch, leave \<open>createPlan\<close>
  (\<open>Inl\<close>, with the message). Otherwise the result is the locals \<open>path\<close>,
  \<open>num_iterations\<close> and \<open>error\<close> after the \<open>try\<close> block. When the search throws a
  \<open>std::runtime_error\<close>, \<open>path\<close> and \<open>num_iterations\<close> are not read again; they are
  given their initial values.
\<close>

definition compute_plan ::
  "AStarAlgorithm \<Rightarrow> SearchReturn \<Rightarrow> string + Coordinates list \<times> int \<times> string" where
  "compute_plan a r =
     (case r of
        SetupThrows what \<Rightarrow> Inl what
      | ThrowsOther what \<Rightarrow> Inl what
      | Throws what \<Rightarrow> Inr ([], 0, ''invalid use: '' @ what)
      | Returns ok path num_iterations \<Rightarrow>
          Inr (path, num_iterations,
               if \<not> ok then
                 (if num_iterations < a_max_iterations a then ''no valid path found''
                  else ''exceeded maximum iterations'')
               else []))"

definition to_cell :: "'sp PlanningContext \<Rightarrow> nat \<times> nat \<Rightarrow> double \<Rightarrow> double \<Rightarrow> nat \<times> nat" where
  "to_cell ctx previous wx wy = (case worldToMap ctx wx wy of None \<Rightarrow> previous | Some c \<Rightarrow> c)"

definition world_pose :: "'sp PlanningContext \<Rightarrow> Header \<Rightarrow> Coordinates \<Rightarrow> PoseStamped" where
  "world_pose ctx h c =
     \<lparr> pose_header = h,
       pose = (getWorldCoords ctx (coord_x c) (coord_y c))
                \<lparr> orientation := getWorldOrientation ctx (coord_theta c) \<rparr> \<rparr>"

text \<open>
  Lines 215 to 226: the start and the goal in search coordinates. \<open>mx\<close> and \<open>my\<close> are
  declared without a value and keep what they hold when the costmap writes no cell.
\<close>

definition start_state :: "'sp PlanningContext \<Rightarrow> PoseStamped \<Rightarrow> nat \<times> nat \<times> nat" where
  "start_state ctx start =
     (case to_cell ctx (unset_cell ctx) (position_x (pose start)) (position_y (pose start)) of
        (mx, my) \<Rightarrow> (mx, my, getClosestAngularBin ctx (orientation (pose start))))"

definition goal_state ::
  "'sp PlanningContext \<Rightarrow> PoseStamped \<Rightarrow> PoseStamped \<Rightarrow> nat \<times> nat \<times> nat" where
  "goal_state ctx start goal =
     (case start_state ctx start of
        (mx, my, bin) \<Rightarrow>
          (case to_cell ctx (mx, my) (position_x (pose goal)) (position_y (pose goal)) of
             (gx, gy) \<Rightarrow> (gx, gy, getClosestAngularBin ctx (orientation (pose goal)))))"

text \<open>Lines 228 to 238: the message, with its header and no pose yet.\<close>

definition empty_plan :: "'sp PlanningContext \<Rightarrow> 'sp SmacPlannerLattice \<Rightarrow> Path" where
  "empty_plan ctx s =
     \<lparr> header = \<lparr> stamp = clock_now ctx, frame_id = global_frame s \<rparr>, poses = [] \<rparr>"

text \<open>Lines 265 to 271: the path in world coordinates, from its last element to its first.\<close>

definition raw_plan ::
  "'sp PlanningContext \<Rightarrow> 'sp SmacPlannerLattice \<Rightarrow> Coordinates list \<Rightarrow> Path" where
  "raw_plan ctx s path =
     (empty_plan ctx s)
       \<lparr> poses := map (world_pose ctx (header (empty_plan ctx s))) (rev path) \<rparr>"

text \<open>Lines 278 to 281: the time left for smoothing.\<close>

definition time_remaining :: "'sp PlanningContext \<Rightarrow> 'sp SmacPlannerLattice \<Rightarrow> double" where
  "time_remaining ctx s = fp_add round64 (max_planning_time s) (fp_neg (time_span ctx))"

definition publish_raw :: "'sp PlanningContext \<Rightarrow> Path \<Rightarrow> Path option" where
  "publish_raw ctx plan = (if 0 < get_subscription_count ctx then Some plan else None)"

text \<open>
  \<open>createPlan\<close>, under the lock \<open>_mutex\<close> from its first statement to its return. A
  planner without an engine, or without a smoother when it is to smooth, dereferences a
  null pointer. An exception that the handler of line 252 does not catch reaches the
  caller. What the function returns is the path alone: the reason of a failure goes to the
  log.
\<close>

definition createPlan ::
  "'sp PlanningContext \<Rightarrow> 'sp SmacPlannerLattice \<Rightarrow> PoseStamped \<Rightarrow> PoseStamped
     \<Rightarrow> fault + PlanRun" where
  "createPlan ctx s start goal =
     (case a_star s of
        None \<Rightarrow> Inl UndefinedBehaviour
      | Some a \<Rightarrow>
          (case compute_plan a
                  (createPath ctx a (start_state ctx start) (goal_state ctx start goal)) of
             Inl what \<Rightarrow> Inl (UncaughtException what)
           | Inr (path, num_iterations, error) \<Rightarrow>
               if error \<noteq> [] then
                 Inr \<lparr> returned = empty_plan ctx s,
                       logged_warning =
                         Some (plugin_name s @ '': failed to create plan, '' @ error @ ''.''),
                       published_raw = None, smoother_budget = None \<rparr>
               else if 1 < num_iterations \<and> 6 < length (poses (raw_plan ctx s path)) then
                 (case smoother s of
                    None \<Rightarrow> Inl UndefinedBehaviour
                  | Some sm \<Rightarrow>
                      Inr \<lparr> returned = smooth ctx sm (raw_plan ctx s path) (time_remaining ctx s),
                            logged_warning = None,
                            published_raw = publish_raw ctx (raw_plan ctx s path),
                            smoother_budget = Some (time_remaining ctx s) \<rparr>)
               else
                 Inr \<lparr> returned = raw_plan ctx s path, logged_warning = None,
                       published_raw = publish_raw ctx (raw_plan ctx s path),
                       smoother_budget = None \<rparr>))"

text \<open>
  Modelled from the spec: what one iteration of the search finds, and the ways in which
  the search ends (\<open>AStarAlgorithm\<close> is not part of the sources at hand).
\<close>

datatype Expansion = Continue | GoalReached "Coordinates list" | OpenSetEmpty

datatype SearchEnd = PathFound "Coordinates list" | NoPathFound | IterationsExceeded | TimeExceeded

text \<open>
  Modelled from the spec: \<open>AStarAlgorithm::createPath\<close> is not part of the sources at
  hand. Of its loop the spec says: the search fails "with NoPathFound if open set empties
  before reaching goal", "with IterationsExceeded if the iteration budget is exhausted
  before the above", and the "wall-clock deadline is checked each iteration; expiry yields
  TimeExceeded". \<open>expand_loop\<close> is that loop: an iteration runs while the budget lasts,
  checks the deadline first (\<open>expired i\<close>: the deadline has passed when iteration \<open>i\<close>
  starts) and then expands a node (\<open>expand i\<close>). It ends with the reason and the number
  of iterations done.
\<close>

function expand_loop ::
  "(int \<Rightarrow> bool) \<Rightarrow> (int \<Rightarrow> Expansion) \<Rightarrow> int \<Rightarrow> int \<Rightarrow> SearchEnd \<times> int" where
  "expand_loop expired expand max_iter i =
     (if max_iter \<le> i then (IterationsExceeded, i)
      else if expired i then (TimeExceeded, i)
      else (case expand i of
              OpenSetEmpty \<Rightarrow> (NoPathFound, i)
            | GoalReached path \<Rightarrow> (PathFound path, i + 1)
            | Continue \<Rightarrow> expand_loop expired expand max_iter (i + 1)))"
  by pat_completeness auto
termination
  by (relation "measure (\<lambda>(expired, expand, max_iter, i). nat (max_iter - i))") auto

declare expand_loop.simps [simp del]

text \<open>
  Modelled from the spec: what such a search hands to its call site, where every failure
  is the boolean \<open>false\<close> ("both manifest as no path produced") with the iteration count.
\<close>

definition createPath_of_loop ::
  "(int \<Rightarrow> bool) \<Rightarrow> (int \<Rightarrow> Expansion) \<Rightarrow> AStarAlgorithm \<Rightarrow> SearchReturn" where
  "createPath_of_loop expired expand a =
     (case expand_loop expired expand (a_max_iterations a) 0 of
        (PathFound path, n) \<Rightarrow> Returns True path n
      | (_, n) \<Rightarrow> Returns False [] n)"

text \<open>
  The parameters that the loop of the callback acts on: the names it compares with, under
  the type it requires for each.
\<close>

definition recognized :: "'sp SmacPlannerLattice \<Rightarrow> Parameter \<Rightarrow> bool" where
  "recognized s p =
     (case get_type p of
        PARAMETER_DOUBLE \<Rightarrow>
          get_name p \<in> set (map (\<lambda>suffix. plugin_name s @ suffix)
            [''.max_planning_time'', ''.lookup_table_size'', ''.reverse_penalty'',
             ''.change_penalty'', ''.non_straight_penalty'', ''.cost_penalty'',
             ''.analytic_expansion_ratio''])
      | PARAMETER_BOOL \<Rightarrow>
          get_name p \<in> set (map (\<lambda>suffix. plugin_name s @ suffix)
            [''.allow_unknown'', ''.cache_obstacle_heuristic'', ''.allow_reverse_expansion''])
      | PARAMETER_INTEGER \<Rightarrow> get_name p = plugin_name s @ ''.max_iterations''
      | PARAMETER_STRING \<Rightarrow> get_name p = plugin_name s @ ''.lattice_filepath''
      | _ \<Rightarrow> False)"

text \<open>The parameter that makes the callback load a lattice file.\<close>

definition sets_lattice_file :: "'sp SmacPlannerLattice \<Rightarrow> Parameter \<Rightarrow> bool" where
  "sets_lattice_file s p =
     (get_type p = PARAMETER_STRING \<and> get_name p = plugin_name s @ ''.lattice_filepath'')"

section \<open>A concrete planner\<close>

text \<open>
  The constructor leaves the engine and the smoother null. The scalar members are not
  initialised by it; \<open>configure\<close> assigns every one of them, and the values chosen here
  for them do not reach its result.
\<close>

definition new_planner :: "unit SmacPlannerLattice" where
  "new_planner =
     \<lparr> a_star = None, smoother = None, plugin_name = [], global_frame = [],
       allow_unknown = False, max_iterations = 0, max_planning_time = Fin 0,
       lookup_table_size = Fin 0,
       search_info =
         \<lparr> minimum_turning_radius = Fin 0, non_straight_penalty = Fin 0,
           change_penalty = Fin 0, reverse_penalty = Fin 0, cost_penalty = Fin 0,
           analytic_expansion_ratio = Fin 0, lattice_filepath = [],
           cache_obstacle_heuristic = False, allow_reverse_expansion = False \<rparr>,
       metadata = \<lparr> min_turning_radius = Fin 0, number_of_headings = 0 \<rparr>,
       motion_model = UNKNOWN \<rparr>"

text \<open>
  A costmap of resolution \<open>0.5\<close> and one lattice file, of minimum turning radius \<open>1.0\<close>
  and 16 headings; every other path fails to load.
\<close>

definition example_env :: "unit Collaborators" where
  "example_env =
     \<lparr> getResolution = Fin (1 / 2), getGlobalFrameID = ''map'', share_directory = ''/share'',
       smoother_params = (),
       lattice_files = (\<lambda>path. if path = ''/share/default_model.json''
                          then Some \<lparr> min_turning_radius = Fin 1, number_of_headings = 16 \<rparr>
                          else None) \<rparr>"

definition default_node :: NodeParameters where
  "default_node =
     \<lparr> p_allow_unknown = None, p_max_iterations = None, p_lattice_filepath = None,
       p_cache_obstacle_heuristic = None, p_reverse_penalty = None, p_change_penalty = None,
       p_non_straight_penalty = None, p_cost_penalty = None,
       p_analytic_expansion_ratio = None, p_max_planning_time = None,
       p_lookup_table_size = None, p_allow_reverse_expansion = None \<rparr>"


text \<open>
  The planner that \<open>configure\<close> builds from \<open>example_env\<close> and the default parameters,
  with the iteration budget \<open>n\<close>.
\<close>

definition example_info :: SearchInfo where
  "example_info =
     \<lparr> minimum_turning_radius = Fin 2,
       non_straight_penalty = to_float (Fin (105 / 100)),
       change_penalty = to_float (Fin (5 / 100)),
       reverse_penalty = to_float (Fin 2),
       cost_penalty = to_float (Fin 2),
       analytic_expansion_ratio = to_float (Fin (35 / 10)),
       lattice_filepath = ''/share/default_model.json'',
       cache_obstacle_heuristic = False,
       allow_reverse_expansion = False \<rparr>"

definition example_planner :: "int \<Rightarrow> unit SmacPlannerLattice" where
  "example_planner n =
     \<lparr> a_star = Some
         \<lparr> a_motion_model = STATE_LATTICE, a_search_info = example_info,
           a_allow_unknown = True, a_max_iterations = n,
           a_max_on_approach_iterations = INT_MAX, a_max_planning_time = Fin 5,
           a_lookup_table_size = Fin 41, a_dim_3_size = 16 \<rparr>,
       smoother = Some \<lparr> sm_params = (), sm_min_turning_radius = Fin 1 \<rparr>,
       plugin_name = ''GridBased'', global_frame = ''map'',
       allow_unknown = True, max_iterations = n, max_planning_time = Fin 5,
       lookup_table_size = Fin 20, search_info = example_info,
       metadata = \<lparr> min_turning_radius = Fin 1, number_of_headings = 16 \<rparr>,
       motion_model = STATE_LATTICE \<rparr>"


text \<open>
  \<open>example_planner 1000000\<close> with the grid-scaled turning radius \<open>r\<close> in the planner
  and in its engine.
\<close>

definition example_reconfigured :: "rat \<Rightarrow> unit SmacPlannerLattice" where
  "example_reconfigured r =
     (example_planner 1000000)
       \<lparr> a_star := Some
           \<lparr> a_motion_model = STATE_LATTICE,
             a_search_info = example_info\<lparr> minimum_turning_radius := Fin r \<rparr>,
             a_allow_unknown = True, a_max_iterations = 1000000,
             a_max_on_approach_iterations = INT_MAX, a_max_planning_time = Fin 5,
             a_lookup_table_size = Fin 41, a_dim_3_size = 16 \<rparr>,
         search_info := example_info\<lparr> minimum_turning_radius := Fin r \<rparr> \<rparr>"

text \<open>
  A planning context on a grid of resolution \<open>0.5\<close> with its origin at zero, one heading
  bin, a search that always returns \<open>r\<close>, no subscriber and a smoother that returns the
  plan as it is.
\<close>

definition example_ctx :: "SearchReturn \<Rightarrow> unit PlanningContext" where
  "example_ctx r =
     \<lparr> clock_now = 100, time_span = Fin 1,
       worldToMap = (\<lambda>wx wy. case (wx, wy) of
                        (Fin a, Fin b) \<Rightarrow>
                          if 0 \<le> a \<and> 0 \<le> b then Some (nat \<lfloor>2 * a\<rfloor>, nat \<lfloor>2 * b\<rfloor>) else None
                      | _ \<Rightarrow> None),
       unset_cell = (0, 0),
       getClosestAngularBin = (\<lambda>q. 0),
       createPath = (\<lambda>a st gl. r),
       getWorldCoords = (\<lambda>mx my. \<lparr> position_x = mx, position_y = my, position_z = Fin 0,
                                   orientation = (Fin 0, Fin 0, Fin 0, Fin 1) \<rparr>),
       getWorldOrientation = (\<lambda>theta. (Fin 0, Fin 0, Fin 0, Fin 1)),
       get_subscription_count = 0,
       smooth = (\<lambda>sm plan budget. plan) \<rparr>"

definition example_pose :: "rat \<Rightarrow> rat \<Rightarrow> PoseStamped" where
  "example_pose wx wy =
     \<lparr> pose_header = \<lparr> stamp = 0, frame_id = ''map'' \<rparr>,
       pose = \<lparr> position_x = Fin wx, position_y = Fin wy, position_z = Fin 0,
                orientation = (Fin 0, Fin 0, Fin 0, Fin 1) \<rparr> \<rparr>"

definition example_cell :: Coordinates where
  "example_cell = \<lparr> coord_x = Fin 1, coord_y = Fin 1, coord_theta = Fin 0 \<rparr>"

section \<open>Evaluating the numbers\<close>

text \<open>Floors and ceilings of quotients of numerals, for the simplifier.\<close>

lemma floor_rat_numeral_div [simp]: "\<lfloor>numeral a / numeral b :: rat\<rfloor> = numeral a div numeral b"
  by (metis floor_divide_of_int_eq of_int_numeral)
lemma floor_rat_neg_numeral_div [simp]: "\<lfloor>- (numeral a / numeral b) :: rat\<rfloor> = - numeral a div numeral b"
  by (metis divide_minus_left floor_divide_of_int_eq of_int_neg_numeral of_int_numeral)
lemma floor_rat_one_div [simp]: "\<lfloor>1 / numeral b :: rat\<rfloor> = 1 div numeral b"
  by (metis floor_divide_of_int_eq of_int_1 of_int_numeral)
lemma ceiling_rat_numeral_div [simp]: "\<lceil>numeral a / numeral b :: rat\<rceil> = - (- numeral a div numeral b)"
  by (metis ceiling_def divide_minus_left floor_divide_of_int_eq of_int_neg_numeral of_int_numeral)
lemma ceiling_rat_neg_numeral_div [simp]: "\<lceil>- (numeral a / numeral b) :: rat\<rceil> = - (numeral a div numeral b)"
  by (metis ceiling_def floor_divide_of_int_eq minus_minus of_int_numeral)

lemmas fl_eval = round32_def round64_def fl_round_def expo_def ilog2.simps pow2_def ties_even_def Let_def
  lookup_table_dim_def of_int32_def trunc_rat_def INT_MIN_def INT_MAX_def cpp_rem_def grid_turning_radius_def

section \<open>Rounding whole numbers\<close>

text \<open>
  A whole number of magnitude up to \<open>2^p\<close> is a value of the format with \<open>p\<close>
  significand bits: rounding leaves it as it is.
\<close>

lemma ilog2_le: "0 < n \<Longrightarrow> 2 ^ ilog2 n \<le> n"
proof (induction n rule: ilog2.induct)
  case (1 n)
  show ?case
  proof (cases "n < 2")
    case True
    with 1 show ?thesis by (simp add: ilog2.simps)
  next
    case False
    then have "0 < n div 2" by simp
    with 1 False have "2 ^ ilog2 (n div 2) \<le> n div 2" by simp
    then have "2 * 2 ^ ilog2 (n div 2) \<le> n" by simp
    with False show ?thesis by (subst ilog2.simps) simp
  qed
qed

lemma ilog2_bound:
  assumes "0 < n" and "n \<le> 2 ^ k"
  shows "ilog2 n \<le> k"
proof -
  have "(2::nat) ^ ilog2 n \<le> 2 ^ k"
    using ilog2_le [OF assms(1)] assms(2) by (rule order_trans)
  then show ?thesis by simp
qed

lemma ties_even_of_int [simp]: "ties_even (of_int m) = m"
  by (simp add: ties_even_def)

lemma fl_round_int:
  assumes "\<bar>n\<bar> \<le> 2 ^ p" and "0 < p" and "emin \<le> 0" and "int p \<le> emax"
  shows "fl_round p emin emax (of_int n) = Fin (of_int n)"
proof (cases "n = 0")
  case True
  then show ?thesis by (simp add: fl_round_def)
next
  case False
  define e where "e = ilog2 (nat \<bar>n\<bar>)"
  define ulp where "ulp = pow2 (int e - (int p - 1))"
  have pos: "0 < nat \<bar>n\<bar>" using False by simp
  have "nat \<bar>n\<bar> \<le> 2 ^ p" using assms(1) by (simp add: nat_le_iff)
  then have e_le: "e \<le> p" unfolding e_def by (rule ilog2_bound [OF pos])
  have low: "2 ^ e \<le> nat \<bar>n\<bar>" unfolding e_def by (rule ilog2_le [OF pos])
  have x1: "1 \<le> \<bar>of_int n :: rat\<bar>" using False by (simp flip: of_int_abs)
  have fl: "\<lfloor>\<bar>of_int n :: rat\<bar>\<rfloor> = \<bar>n\<bar>" by (simp flip: of_int_abs)
  have ex: "expo \<bar>of_int n :: rat\<bar> = int e"
    using x1 by (simp add: expo_def fl e_def)
  have mx: "max (int e) emin = int e" using assms(3) by simp
  have ulp_pos: "0 < ulp" by (simp add: ulp_def pow2_def)
  have "\<exists>m::int. (of_int n :: rat) / ulp = of_int m"
  proof (cases "e < p")
    case True
    then have "ulp = 1 / 2 ^ (p - 1 - e)"
      by (auto simp: ulp_def pow2_def nat_diff_distrib' intro: arg_cong [where f = "\<lambda>k. _ ^ k"])
    then have "(of_int n :: rat) / ulp = of_int (n * 2 ^ (p - 1 - e))" by simp
    then show ?thesis by blast
  next
    case False
    with e_le have ep: "e = p" by simp
    then have u: "ulp = 2" by (simp add: ulp_def pow2_def)
    from low ep have "2 ^ p \<le> \<bar>n\<bar>" by (simp add: le_nat_iff)
    with assms(1) have "\<bar>n\<bar> = 2 ^ p" by simp
    moreover from assms(2) obtain q where "p = Suc q" by (cases p) auto
    ultimately have "\<bar>n\<bar> = 2 * 2 ^ q" by simp
    then have "n = 2 * 2 ^ q \<or> n = - (2 * 2 ^ q)" by linarith
    then have "n = 2 * (2 ^ q) \<or> n = 2 * (- (2 ^ q))" by simp
    then obtain m where "n = 2 * m" by blast
    then have "(of_int n :: rat) / ulp = of_int m" by (simp add: u)
    then show ?thesis by blast
  qed
  then obtain m :: int where m: "(of_int n :: rat) / ulp = of_int m" by blast
  then have same: "of_int m * ulp = (of_int n :: rat)"
    using ulp_pos by (simp add: field_simps)
  have "\<bar>of_int n :: rat\<bar> \<le> 2 ^ p"
    using assms(1) by (metis of_int_abs of_int_le_iff of_int_numeral of_int_power)
  also have "\<dots> < 2 ^ nat (emax + 1)"
    using assms(4) by (intro power_strict_increasing) auto
  finally have small: "\<not> pow2 (emax + 1) \<le> \<bar>of_int n :: rat\<bar>"
    using assms(4) by (simp add: pow2_def)
  show ?thesis
    using False small
    by (simp add: fl_round_def ex mx Let_def m same flip: ulp_def)
qed

lemma round32_int: "\<bar>n\<bar> \<le> 2 ^ 24 \<Longrightarrow> round32 (of_int n) = Fin (of_int n)"
  unfolding round32_def by (rule fl_round_int) simp_all

lemma round64_int: "\<bar>n\<bar> \<le> 2 ^ 53 \<Longrightarrow> round64 (of_int n) = Fin (of_int n)"
  unfolding round64_def by (rule fl_round_int) simp_all

lemma cpp_rem_2: "cpp_rem n 2 = 0 \<longleftrightarrow> even n"
  by (auto simp: cpp_rem_def sgn_if even_iff_mod_2_eq_zero abs_if)

lemma to_int_of_int:
  "INT_MIN \<le> n \<Longrightarrow> n \<le> INT_MAX \<Longrightarrow> to_int (Fin (of_int n)) = Some n"
  by (simp add: trunc_rat_def)

text \<open>
  The dimension of the lookup table is odd whenever the truncated quotient is below
  \<open>2^24\<close> in magnitude: the count itself when it is odd, the count plus one when it
  is even.
\<close>

lemma lookup_table_dim_odd:
  assumes "to_int (fp_div round32 (to_float table_size) (to_float resolution)) = Some n"
    and "\<bar>n\<bar> < 2 ^ 24"
  shows "lookup_table_dim table_size resolution
           = Some (Fin (of_int (if even n then n + 1 else n)))
       \<and> odd (if even n then n + 1 else n)"
proof -
  have r: "of_int32 n = Fin (of_int n)"
    using assms(2) by (simp add: of_int32_def round32_int)
  have i: "to_int (Fin (of_int n)) = Some n"
    using assms(2) by (intro to_int_of_int) (simp_all add: INT_MIN_def INT_MAX_def)
  have "\<bar>n + 1\<bar> \<le> 2 ^ 24" using assms(2) by simp
  then have a: "to_float (fp_add round64 (Fin (of_int n)) (Fin 1)) = Fin (of_int (n + 1))"
    using round64_int [of "n + 1"] round32_int [of "n + 1"] by simp
  have "lookup_table_dim table_size resolution
          = (if even n then Some (Fin (of_int (n + 1))) else Some (Fin (of_int n)))"
    unfolding lookup_table_dim_def assms(1) Let_def option.case r i cpp_rem_2 a ..
  then show ?thesis
    by simp
qed

section \<open>The iteration budget\<close>

lemma to_int32_id: "INT_MIN \<le> v \<Longrightarrow> v \<le> INT_MAX \<Longrightarrow> to_int32 v = v"
  by (simp add: to_int32_def INT_MIN_def INT_MAX_def)

lemma normalize_nonpositive:
  "INT_MIN \<le> v \<Longrightarrow> v \<le> 0 \<Longrightarrow> normalize_max_iterations (to_int32 v) = INT_MAX"
  by (simp add: to_int32_id normalize_max_iterations_def INT_MAX_def)

lemma normalize_INT_MAX: "normalize_max_iterations (to_int32 INT_MAX) = INT_MAX"
  by (simp add: to_int32_def normalize_max_iterations_def INT_MAX_def)

lemma example_dim: "lookup_table_dim (Fin 20) (Fin (1 / 2)) = Some (Fin 41)"
  by (simp add: fl_eval)

lemma example_radius: "grid_turning_radius (Fin 1) (Fin (1 / 2)) = Fin 2"
  by (simp add: fl_eval)

lemma configure_eq:
  "configure env node nm s0 =
     (case lattice_files env (declared_or (share_directory env @ ''/default_model.json'') (p_lattice_filepath node)) of
        None \<Rightarrow> Inl (LoadError (declared_or (share_directory env @ ''/default_model.json'') (p_lattice_filepath node)))
      | Some m \<Rightarrow>
         (case lookup_table_dim (declared_or (Fin 20) (p_lookup_table_size node)) (getResolution env) of
            None \<Rightarrow> Inl UndefinedBehaviour
          | Some d \<Rightarrow> Inr ((configured env node nm s0 m)
                \<lparr> a_star := Some (make_a_star (configured env node nm s0 m) d),
                  smoother := Some (make_smoother env (configured env node nm s0 m)) \<rparr>)))"
  unfolding configure_def getLatticeMetadata_def Let_def configured_def
  by (cases s0; cases "search_info s0"; simp split: option.splits)

lemma configured_max_iterations:
  "configured env (node\<lparr>p_max_iterations := Some v\<rparr>) nm s0 m =
     (configured env node nm s0 m)\<lparr> max_iterations := normalize_max_iterations (to_int32 v) \<rparr>"
  by (simp add: configured_def declared_or_def)

lemma configure_same_budget:
  assumes "normalize_max_iterations (to_int32 v) = normalize_max_iterations (to_int32 w)"
  shows "configure env (node\<lparr>p_max_iterations := Some v\<rparr>) nm s0 =
         configure env (node\<lparr>p_max_iterations := Some w\<rparr>) nm s0"
  using assms by (simp add: configure_eq configured_max_iterations split: option.splits)

lemma configure_budget:
  assumes "configure env (node\<lparr>p_max_iterations := Some v\<rparr>) nm s0 = Inr s"
  shows "max_iterations s = normalize_max_iterations (to_int32 v)
       \<and> map_option a_max_iterations (a_star s) = Some (normalize_max_iterations (to_int32 v))"
  using assms
  by (auto simp: configure_eq configured_max_iterations make_a_star_def split: option.splits)

lemma update_max_iterations_same:
  assumes "normalize_max_iterations (to_int32 v) = normalize_max_iterations (to_int32 w)"
  shows "update_parameter env \<lparr>get_name = n, get_value = IntegerValue v\<rparr> st
       = update_parameter env \<lparr>get_name = n, get_value = IntegerValue w\<rparr> st"
  using assms by (simp add: update_parameter_def split: prod.splits)

lemma update_parameters_append:
  "update_parameters env (ps @ qs) st =
     (case update_parameters env ps st of Inl e \<Rightarrow> Inl e | Inr st' \<Rightarrow> update_parameters env qs st')"
  by (induction ps arbitrary: st) (auto split: sum.splits)

lemma callback_same_budget:
  assumes "normalize_max_iterations (to_int32 v) = normalize_max_iterations (to_int32 w)"
  shows "dynamicParametersCallback env (pre @ \<lparr>get_name = n, get_value = IntegerValue v\<rparr> # post) s
       = dynamicParametersCallback env (pre @ \<lparr>get_name = n, get_value = IntegerValue w\<rparr> # post) s"
  by (simp add: dynamicParametersCallback_def update_parameters_append
       update_max_iterations_same [OF assms] cong: sum.case_cong)


lemma configure_example:
  "configure example_env (default_node\<lparr>p_max_iterations := Some v\<rparr>) ''GridBased'' new_planner
     = Inr (example_planner (normalize_max_iterations (to_int32 v)))"
  by (simp add: configure_eq configured_def example_env_def default_node_def new_planner_def
      example_planner_def example_info_def declared_or_def make_a_star_def make_smoother_def
      example_dim example_radius)

lemma configure_example_default:
  "configure example_env default_node ''GridBased'' new_planner = Inr (example_planner 1000000)"
  by (simp add: configure_eq configured_def example_env_def default_node_def new_planner_def
      example_planner_def example_info_def declared_or_def make_a_star_def make_smoother_def
      example_dim example_radius normalize_max_iterations_def to_int32_def)

lemma singleton_budget_update:
  assumes "dynamicParametersCallback env
             [\<lparr>get_name = plugin_name s @ ''.max_iterations'', get_value = IntegerValue v\<rparr>] s
           = (s', Inr r)"
  shows "max_iterations s' = normalize_max_iterations (to_int32 v)
       \<and> map_option a_max_iterations (a_star s') = Some (normalize_max_iterations (to_int32 v))"
  using assms
  by (auto simp: dynamicParametersCallback_def update_parameter_def reinitialize_def
        set_info_def make_a_star_def Let_def split: option.splits)

text \<open>
  C4 (amended). A configured \<open>max_iterations\<close> that is not positive and is an \<open>int\<close>
  (at least \<open>INT_MIN\<close>) has the effect of the largest \<open>int\<close>: \<open>configure\<close> and the
  callback, for any list with such an update in it, end as they do for \<open>INT_MAX\<close>, with
  the same faults if any; the planner and the engine they build hold \<open>INT_MAX\<close> as the
  budget.
\<close>

theorem nonpositive_budget_is_unbounded:
  assumes "INT_MIN \<le> v" and "v \<le> 0"
  shows "configure env (node\<lparr>p_max_iterations := Some v\<rparr>) nm s0
           = configure env (node\<lparr>p_max_iterations := Some INT_MAX\<rparr>) nm s0
       \<and> (\<forall>s. configure env (node\<lparr>p_max_iterations := Some v\<rparr>) nm s0 = Inr s
              \<longrightarrow> max_iterations s = INT_MAX
                  \<and> map_option a_max_iterations (a_star s) = Some INT_MAX)
       \<and> dynamicParametersCallback env
            (pre @ \<lparr>get_name = n, get_value = IntegerValue v\<rparr> # post) s1
           = dynamicParametersCallback env
               (pre @ \<lparr>get_name = n, get_value = IntegerValue INT_MAX\<rparr> # post) s1
       \<and> (\<forall>s' r. dynamicParametersCallback env
                     [\<lparr>get_name = plugin_name s1 @ ''.max_iterations'',
                       get_value = IntegerValue v\<rparr>] s1 = (s', Inr r)
              \<longrightarrow> max_iterations s' = INT_MAX
                  \<and> map_option a_max_iterations (a_star s') = Some INT_MAX)"
proof -
  have eq: "normalize_max_iterations (to_int32 v) = normalize_max_iterations (to_int32 INT_MAX)"
    using assms by (simp add: normalize_nonpositive normalize_INT_MAX)
  have v: "normalize_max_iterations (to_int32 v) = INT_MAX"
    using assms by (rule normalize_nonpositive)
  show ?thesis
    using configure_same_budget [OF eq] callback_same_budget [OF eq]
      configure_budget [where v = v] singleton_budget_update [where v = v]
    unfolding v by blast
qed

theorem nonpositive_budget_is_unbounded_witness:
  "INT_MIN \<le> - 5 \<and> (- 5 :: int) \<le> 0
   \<and> configure example_env (default_node\<lparr>p_max_iterations := Some (- 5)\<rparr>) ''GridBased''
         new_planner = Inr (example_planner INT_MAX)
   \<and> max_iterations (example_planner INT_MAX) = INT_MAX
   \<and> (\<exists>s'. dynamicParametersCallback example_env
               [\<lparr>get_name = ''GridBased.max_iterations'', get_value = IntegerValue (- 5)\<rparr>]
               (example_planner 1000000) = (s', Inr \<lparr>successful = True\<rparr>)
             \<and> max_iterations s' = INT_MAX
             \<and> map_option a_max_iterations (a_star s') = Some INT_MAX)"
proof -
  have h1: "INT_MIN \<le> - 5" and h2: "(- 5 :: int) \<le> 0"
    by (simp_all add: INT_MIN_def)
  have c: "configure example_env (default_node\<lparr>p_max_iterations := Some (- 5)\<rparr>) ''GridBased''
         new_planner = Inr (example_planner INT_MAX)"
    by (simp add: configure_example normalize_nonpositive [OF h1 h2])
  have n: "plugin_name (example_planner 1000000) = ''GridBased''"
    by (simp add: example_planner_def)
  obtain s' res where d: "dynamicParametersCallback example_env
               [\<lparr>get_name = ''GridBased.max_iterations'', get_value = IntegerValue (- 5)\<rparr>]
               (example_planner 1000000) = (s', res)"
    by (cases "dynamicParametersCallback example_env
               [\<lparr>get_name = ''GridBased.max_iterations'', get_value = IntegerValue (- 5)\<rparr>]
               (example_planner 1000000)")
  have ok: "res = Inr \<lparr>successful = True\<rparr>"
    using d
    by (auto simp: dynamicParametersCallback_def update_parameter_def reinitialize_def
        set_info_def example_planner_def example_env_def example_dim split: option.splits)
  have "\<forall>s' r. dynamicParametersCallback example_env
                     [\<lparr>get_name = plugin_name (example_planner 1000000) @ ''.max_iterations'',
                       get_value = IntegerValue (- 5)\<rparr>] (example_planner 1000000) = (s', Inr r)
              \<longrightarrow> max_iterations s' = INT_MAX
                  \<and> map_option a_max_iterations (a_star s') = Some INT_MAX"
    using nonpositive_budget_is_unbounded [OF h1 h2, of example_env default_node "''GridBased''"
      new_planner "[]" "''GridBased.max_iterations''" "[]" "example_planner 1000000"]
    by blast
  then have m: "max_iterations s' = INT_MAX
                  \<and> map_option a_max_iterations (a_star s') = Some INT_MAX"
    using d ok by (simp add: n)
  have e: "max_iterations (example_planner INT_MAX) = INT_MAX"
    by (simp add: example_planner_def)
  show ?thesis
    using h1 h2 c e d ok m by blast
qed

text \<open>
  C4 as stated fails below \<open>INT_MIN\<close>: the parameter is an \<open>int64_t\<close> and the member an
  \<open>int\<close>, so \<open>-4294967291\<close> is stored as \<open>5\<close>, which is positive and bounds the search.
\<close>

theorem narrowed_budget_counterexample:
  "(- 4294967291 :: int) \<le> 0
   \<and> configure example_env (default_node\<lparr>p_max_iterations := Some (- 4294967291)\<rparr>)
         ''GridBased'' new_planner = Inr (example_planner 5)
   \<and> map_option a_max_iterations (a_star (example_planner 5)) = Some 5
   \<and> (5 :: int) \<noteq> INT_MAX"
  by (simp add: configure_example normalize_max_iterations_def to_int32_def example_planner_def
      INT_MAX_def)


section \<open>Planning calls\<close>

lemma compute_plan_ok [simp]:
  "compute_plan a (Returns True path n) = Inr (path, n, [])"
  by (simp add: compute_plan_def)

lemma compute_plan_failed [simp]:
  "compute_plan a (Returns False path n) =
     Inr (path, n, if n < a_max_iterations a then ''no valid path found''
                   else ''exceeded maximum iterations'')"
  by (simp add: compute_plan_def)

lemma compute_plan_throws [simp]:
  "compute_plan a (Throws what) = Inr ([], 0, ''invalid use: '' @ what)"
  by (simp add: compute_plan_def)

lemma compute_plan_uncaught [simp]:
  "compute_plan a (ThrowsOther what) = Inl what"
  "compute_plan a (SetupThrows what) = Inl what"
  by (simp_all add: compute_plan_def)

lemma length_raw_plan [simp]: "length (poses (raw_plan ctx s path)) = length path"
  by (simp add: raw_plan_def)

text \<open>
  C9. After a search that succeeds with \<open>n\<close> iterations and the path \<open>path\<close>, the
  smoother is called exactly when \<open>n\<close> is more than one and the plan has more than six
  poses, and its result is returned; in every other case the smoother is not called and the
  plan returned is the raw plan, unchanged.
\<close>

theorem smoothing_gate:
  assumes "a_star s = Some a"
    and "createPath ctx a (start_state ctx start) (goal_state ctx start goal) = Returns True path n"
  shows "(1 < n \<and> 6 < length path \<longrightarrow>
           (\<forall>sm. smoother s = Some sm \<longrightarrow>
              createPlan ctx s start goal =
                Inr \<lparr> returned = smooth ctx sm (raw_plan ctx s path) (time_remaining ctx s),
                      logged_warning = None,
                      published_raw = publish_raw ctx (raw_plan ctx s path),
                      smoother_budget = Some (time_remaining ctx s) \<rparr>))
       \<and> (\<not> (1 < n \<and> 6 < length path) \<longrightarrow>
            createPlan ctx s start goal =
              Inr \<lparr> returned = raw_plan ctx s path, logged_warning = None,
                    published_raw = publish_raw ctx (raw_plan ctx s path),
                    smoother_budget = None \<rparr>)"
  using assms by (simp add: createPlan_def)

text \<open>
  C5 (amended). For a configured planner: when \<open>createPath\<close> throws a
  \<open>std::runtime_error\<close>, or returns \<open>false\<close> with an iteration count below the budget of
  the engine, or returns \<open>false\<close> with a count that has reached it, \<open>createPlan\<close> returns
  to its caller the plan without a pose, and never a part of a path; it logs the warning
  with the reason "invalid use: " and the message, "no valid path found", or "exceeded
  maximum iterations" respectively, publishes nothing and does not call the smoother. The
  reason is in the log and not in what is returned. An exception of \<open>createPath\<close> of
  another class, and an exception of \<open>setStart\<close> or \<open>setGoal\<close>, is not caught and
  reaches the caller.
\<close>

theorem caught_failure_gives_empty_plan:
  assumes "a_star s = Some a"
  shows "(createPath ctx a (start_state ctx start) (goal_state ctx start goal) = Throws what
            \<longrightarrow> createPlan ctx s start goal =
                  Inr \<lparr> returned = empty_plan ctx s,
                        logged_warning =
                          Some (plugin_name s @ '': failed to create plan, invalid use: ''
                                  @ what @ ''.''),
                        published_raw = None, smoother_budget = None \<rparr>)
       \<and> (createPath ctx a (start_state ctx start) (goal_state ctx start goal)
              = Returns False path n \<and> n < a_max_iterations a
            \<longrightarrow> createPlan ctx s start goal =
                  Inr \<lparr> returned = empty_plan ctx s,
                        logged_warning =
                          Some (plugin_name s @ '': failed to create plan, no valid path found.''),
                        published_raw = None, smoother_budget = None \<rparr>)
       \<and> (createPath ctx a (start_state ctx start) (goal_state ctx start goal)
              = Returns False path n \<and> a_max_iterations a \<le> n
            \<longrightarrow> createPlan ctx s start goal =
                  Inr \<lparr> returned = empty_plan ctx s,
                        logged_warning =
                          Some (plugin_name s
                                  @ '': failed to create plan, exceeded maximum iterations.''),
                        published_raw = None, smoother_budget = None \<rparr>)
       \<and> poses (empty_plan ctx s) = []
       \<and> (createPath ctx a (start_state ctx start) (goal_state ctx start goal)
              = ThrowsOther what
            \<longrightarrow> createPlan ctx s start goal = Inl (UncaughtException what))
       \<and> (createPath ctx a (start_state ctx start) (goal_state ctx start goal)
              = SetupThrows what
            \<longrightarrow> createPlan ctx s start goal = Inl (UncaughtException what))"
  using assms by (simp add: createPlan_def empty_plan_def)

lemma example_plugin_name: "plugin_name (example_planner k) = ''GridBased''"
  by (simp add: example_planner_def)

lemma example_a_star:
  "a_star (example_planner k) =
     Some \<lparr> a_motion_model = STATE_LATTICE, a_search_info = example_info,
            a_allow_unknown = True, a_max_iterations = k,
            a_max_on_approach_iterations = INT_MAX, a_max_planning_time = Fin 5,
            a_lookup_table_size = Fin 41, a_dim_3_size = 16 \<rparr>"
  by (simp add: example_planner_def)

lemma example_smoother:
  "smoother (example_planner k) = Some \<lparr> sm_params = (), sm_min_turning_radius = Fin 1 \<rparr>"
  by (simp add: example_planner_def)

lemma example_createPath: "createPath (example_ctx r) a st gl = r"
  by (simp add: example_ctx_def)

theorem smoothing_gate_witness:
  "createPlan (example_ctx (Returns True (replicate 7 example_cell) 2)) (example_planner 9)
      (example_pose 0 0) (example_pose 3 0)
     = Inr \<lparr> returned =
               smooth (example_ctx (Returns True (replicate 7 example_cell) 2))
                 \<lparr> sm_params = (), sm_min_turning_radius = Fin 1 \<rparr>
                 (raw_plan (example_ctx (Returns True (replicate 7 example_cell) 2))
                    (example_planner 9) (replicate 7 example_cell))
                 (time_remaining (example_ctx (Returns True (replicate 7 example_cell) 2))
                    (example_planner 9)),
             logged_warning = None,
             published_raw =
               publish_raw (example_ctx (Returns True (replicate 7 example_cell) 2))
                 (raw_plan (example_ctx (Returns True (replicate 7 example_cell) 2))
                    (example_planner 9) (replicate 7 example_cell)),
             smoother_budget =
               Some (time_remaining (example_ctx (Returns True (replicate 7 example_cell) 2))
                       (example_planner 9)) \<rparr>
   \<and> createPlan (example_ctx (Returns True (replicate 6 example_cell) 2)) (example_planner 9)
        (example_pose 0 0) (example_pose 3 0)
     = Inr \<lparr> returned =
               raw_plan (example_ctx (Returns True (replicate 6 example_cell) 2))
                 (example_planner 9) (replicate 6 example_cell),
             logged_warning = None,
             published_raw =
               publish_raw (example_ctx (Returns True (replicate 6 example_cell) 2))
                 (raw_plan (example_ctx (Returns True (replicate 6 example_cell) 2))
                    (example_planner 9) (replicate 6 example_cell)),
             smoother_budget = None \<rparr>"
  using smoothing_gate [where ctx = "example_ctx (Returns True (replicate 7 example_cell) 2)"
      and s = "example_planner 9" and start = "example_pose 0 0" and goal = "example_pose 3 0",
      OF example_a_star example_createPath]
    smoothing_gate [where ctx = "example_ctx (Returns True (replicate 6 example_cell) 2)"
      and s = "example_planner 9" and start = "example_pose 0 0" and goal = "example_pose 3 0",
      OF example_a_star example_createPath]
  by (simp add: example_smoother)

theorem caught_failure_gives_empty_plan_witness:
  "createPlan (example_ctx (Throws ''goal is occupied'')) (example_planner 9)
      (example_pose 0 0) (example_pose 3 0)
     = Inr \<lparr> returned = empty_plan (example_ctx (Throws ''goal is occupied''))
                          (example_planner 9),
             logged_warning =
               Some ''GridBased: failed to create plan, invalid use: goal is occupied.'',
             published_raw = None, smoother_budget = None \<rparr>
   \<and> createPlan (example_ctx (Returns False [] 3)) (example_planner 9)
        (example_pose 0 0) (example_pose 3 0)
     = Inr \<lparr> returned = empty_plan (example_ctx (Returns False [] 3)) (example_planner 9),
             logged_warning = Some ''GridBased: failed to create plan, no valid path found.'',
             published_raw = None, smoother_budget = None \<rparr>
   \<and> createPlan (example_ctx (Returns False [] 9)) (example_planner 9)
        (example_pose 0 0) (example_pose 3 0)
     = Inr \<lparr> returned = empty_plan (example_ctx (Returns False [] 9)) (example_planner 9),
             logged_warning =
               Some ''GridBased: failed to create plan, exceeded maximum iterations.'',
             published_raw = None, smoother_budget = None \<rparr>
   \<and> poses (empty_plan (example_ctx (Returns False [] 9)) (example_planner 9)) = []
   \<and> createPlan (example_ctx (ThrowsOther ''bad allocation'')) (example_planner 9)
        (example_pose 0 0) (example_pose 3 0) = Inl (UncaughtException ''bad allocation'')
   \<and> createPlan (example_ctx (SetupThrows ''Start must be set before goal.''))
        (example_planner 9) (example_pose 0 0) (example_pose 3 0)
       = Inl (UncaughtException ''Start must be set before goal.'')"
  using caught_failure_gives_empty_plan
     [where ctx = "example_ctx (Throws ''goal is occupied'')" and what = "''goal is occupied''"
      and s = "example_planner 9" and start = "example_pose 0 0" and goal = "example_pose 3 0",
      OF example_a_star]
    caught_failure_gives_empty_plan
     [where ctx = "example_ctx (Returns False [] 3)" and path = "[]" and n = 3
      and s = "example_planner 9" and start = "example_pose 0 0" and goal = "example_pose 3 0",
      OF example_a_star]
    caught_failure_gives_empty_plan
     [where ctx = "example_ctx (Returns False [] 9)" and path = "[]" and n = 9
      and s = "example_planner 9" and start = "example_pose 0 0" and goal = "example_pose 3 0",
      OF example_a_star]
    caught_failure_gives_empty_plan
     [where ctx = "example_ctx (ThrowsOther ''bad allocation'')" and what = "''bad allocation''"
      and s = "example_planner 9" and start = "example_pose 0 0" and goal = "example_pose 3 0",
      OF example_a_star]
    caught_failure_gives_empty_plan
     [where ctx = "example_ctx (SetupThrows ''Start must be set before goal.'')"
      and what = "''Start must be set before goal.''"
      and s = "example_planner 9" and start = "example_pose 0 0" and goal = "example_pose 3 0",
      OF example_a_star]
  by (simp add: example_createPath example_plugin_name)

text \<open>
  C5 as stated fails for a search-time exception that is not a \<open>std::runtime_error\<close>:
  when \<open>createPath\<close> throws a \<open>std::invalid_argument\<close>, the handler of line 252 does not
  catch it, and \<open>createPlan\<close> returns no path and logs no reason: the exception reaches
  the caller.
\<close>

theorem uncaught_search_exception_counterexample:
  "createPlan (example_ctx (ThrowsOther ''invalid argument'')) (example_planner 9)
     (example_pose 0 0) (example_pose 3 0) = Inl (UncaughtException ''invalid argument'')"
  by (simp add: createPlan_def example_a_star example_ctx_def)

lemma expand_loop_deadline:
  "expand_loop expired expand max_iter i = (TimeExceeded, n) \<Longrightarrow> n < max_iter"
proof (induction expired expand max_iter i rule: expand_loop.induct)
  case (1 expired expand max_iter i)
  then show ?case
    by (subst (asm) (2) expand_loop.simps) (auto split: if_splits Expansion.splits)
qed

lemma expand_loop_budget:
  "expand_loop expired expand max_iter i = (IterationsExceeded, n) \<Longrightarrow> max_iter \<le> n"
proof (induction expired expand max_iter i rule: expand_loop.induct)
  case (1 expired expand max_iter i)
  then show ?case
    by (subst (asm) (2) expand_loop.simps) (auto split: if_splits Expansion.splits)
qed

lemma createPath_of_loop_deadline:
  "expand_loop expired expand (a_max_iterations a) 0 = (TimeExceeded, n)
   \<Longrightarrow> createPath_of_loop expired expand a = Returns False [] n"
  by (simp add: createPath_of_loop_def)

lemma createPath_of_loop_budget:
  "expand_loop expired expand (a_max_iterations a) 0 = (IterationsExceeded, n)
   \<Longrightarrow> createPath_of_loop expired expand a = Returns False [] n"
  by (simp add: createPath_of_loop_def)

text \<open>
  C3. With the search loop of the spec in the place of \<open>createPath\<close>: a search that the
  deadline ends and a search that the iteration budget ends are reported at the call site
  with different reasons. The deadline is reported as "no valid path found", the reason of
  an emptied open set as well; the budget as "exceeded maximum iterations".
\<close>

theorem deadline_reported_apart_from_budget:
  assumes "a_star s = Some a"
    and "expand_loop expired expand (a_max_iterations a) 0 = (TimeExceeded, n)"
    and "expand_loop expired' expand' (a_max_iterations a) 0 = (IterationsExceeded, n')"
  shows "createPlan (ctx\<lparr>createPath := \<lambda>a st gl. createPath_of_loop expired expand a\<rparr>)
           s start goal
         = Inr \<lparr> returned = empty_plan ctx s,
                 logged_warning =
                   Some (plugin_name s @ '': failed to create plan, no valid path found.''),
                 published_raw = None, smoother_budget = None \<rparr>
       \<and> createPlan (ctx\<lparr>createPath := \<lambda>a st gl. createPath_of_loop expired' expand' a\<rparr>)
           s start goal
         = Inr \<lparr> returned = empty_plan ctx s,
                 logged_warning =
                   Some (plugin_name s @ '': failed to create plan, exceeded maximum iterations.''),
                 published_raw = None, smoother_budget = None \<rparr>
       \<and> plugin_name s @ '': failed to create plan, no valid path found.''
           \<noteq> plugin_name s @ '': failed to create plan, exceeded maximum iterations.''"
  using assms(1) expand_loop_deadline [OF assms(2)] expand_loop_budget [OF assms(3)]
    createPath_of_loop_deadline [OF assms(2)] createPath_of_loop_budget [OF assms(3)]
  by (simp add: createPlan_def empty_plan_def)

lemma example_deadline:
  "expand_loop (\<lambda>i. 3 \<le> i) (\<lambda>i. Continue) 5 0 = (TimeExceeded, 3)"
  by (simp add: expand_loop.simps)

lemma example_budget:
  "expand_loop (\<lambda>i. False) (\<lambda>i. Continue) 5 0 = (IterationsExceeded, 5)"
  by (simp add: expand_loop.simps)


theorem deadline_reported_apart_from_budget_witness:
  "createPlan ((example_ctx (Throws []))
                 \<lparr>createPath := \<lambda>a st gl. createPath_of_loop (\<lambda>i. 3 \<le> i) (\<lambda>i. Continue) a\<rparr>)
      (example_planner 5) (example_pose 0 0) (example_pose 3 0)
     = Inr \<lparr> returned = empty_plan (example_ctx (Throws [])) (example_planner 5),
             logged_warning = Some ''GridBased: failed to create plan, no valid path found.'',
             published_raw = None, smoother_budget = None \<rparr>
   \<and> createPlan ((example_ctx (Throws []))
                 \<lparr>createPath := \<lambda>a st gl. createPath_of_loop (\<lambda>i. False) (\<lambda>i. Continue) a\<rparr>)
      (example_planner 5) (example_pose 0 0) (example_pose 3 0)
     = Inr \<lparr> returned = empty_plan (example_ctx (Throws [])) (example_planner 5),
             logged_warning =
               Some ''GridBased: failed to create plan, exceeded maximum iterations.'',
             published_raw = None, smoother_budget = None \<rparr>"
  using deadline_reported_apart_from_budget
     [where s = "example_planner 5" and ctx = "example_ctx (Throws [])"
        and expired = "\<lambda>i. 3 \<le> i" and expand = "\<lambda>i. Continue" and n = 3
        and expired' = "\<lambda>i. False" and expand' = "\<lambda>i. Continue" and n' = 5
        and start = "example_pose 0 0" and goal = "example_pose 3 0",
      OF example_a_star]
    example_deadline example_budget
  by (simp add: example_planner_def)

section \<open>Reconfiguration\<close>

lemma update_parameter_other:
  assumes "\<not> sets_lattice_file s p"
  shows "\<exists>s1 ra1. update_parameter env p (s, ra, rs) = Inr (s1, ra1, rs)
           \<and> plugin_name s1 = plugin_name s \<and> a_star s1 = a_star s \<and> smoother s1 = smoother s
           \<and> metadata s1 = metadata s
           \<and> minimum_turning_radius (search_info s1) = minimum_turning_radius (search_info s)"
proof (cases "get_value p")
  case (StringValue path)
  with assms show ?thesis
    by (simp add: update_parameter_def sets_lattice_file_def get_type_def)
qed (auto simp: update_parameter_def set_info_def Let_def)

lemma update_parameters_other:
  assumes "\<forall>p\<in>set ps. \<not> sets_lattice_file s p"
  shows "\<exists>s1 ra1. update_parameters env ps (s, ra, rs) = Inr (s1, ra1, rs)
           \<and> plugin_name s1 = plugin_name s \<and> a_star s1 = a_star s \<and> smoother s1 = smoother s
           \<and> metadata s1 = metadata s
           \<and> minimum_turning_radius (search_info s1) = minimum_turning_radius (search_info s)"
  using assms
proof (induction ps arbitrary: s ra)
  case Nil
  then show ?case by simp
next
  case (Cons p ps)
  from Cons.prems have "\<not> sets_lattice_file s p" by simp
  from update_parameter_other [OF this, of env ra rs]
  obtain s1 ra1 where 1: "update_parameter env p (s, ra, rs) = Inr (s1, ra1, rs)"
    and k: "plugin_name s1 = plugin_name s" "a_star s1 = a_star s" "smoother s1 = smoother s"
      "metadata s1 = metadata s"
      "minimum_turning_radius (search_info s1) = minimum_turning_radius (search_info s)"
    by blast
  from Cons.prems k(1) have "\<forall>q\<in>set ps. \<not> sets_lattice_file s1 q"
    by (simp add: sets_lattice_file_def)
  from Cons.IH [OF this, of ra1]
  obtain s2 ra2 where 2: "update_parameters env ps (s1, ra1, rs) = Inr (s2, ra2, rs)"
    and k2: "plugin_name s2 = plugin_name s1" "a_star s2 = a_star s1" "smoother s2 = smoother s1"
      "metadata s2 = metadata s1"
      "minimum_turning_radius (search_info s2) = minimum_turning_radius (search_info s1)"
    by blast
  show ?case using 1 2 k k2 by simp
qed

lemma update_parameter_load_fails:
  assumes "lattice_files env path = None"
  shows "update_parameter env
           \<lparr>get_name = plugin_name s @ ''.lattice_filepath'', get_value = StringValue path\<rparr>
           (s, ra, rs)
         = Inl (LoadError path, set_info (\<lambda>i. i\<lparr>lattice_filepath := path\<rparr>) s)"
  using assms by (simp add: update_parameter_def getLatticeMetadata_def set_info_def)

text \<open>
  C6 (amended). When the callback meets a lattice file that does not load, and no parameter
  before it in the list has named a lattice file, the callback ends with the load error
  and the engine, the smoother, the lattice metadata and the grid-scaled turning radius of
  the planner are those of before the call. The file path of the planner is the path that
  has failed.
\<close>

theorem failed_lattice_load_keeps_engine:
  assumes "lattice_files env path = None"
    and "\<forall>p\<in>set pre. \<not> sets_lattice_file s p"
  shows "\<exists>s'. dynamicParametersCallback env
                (pre @ \<lparr>get_name = plugin_name s @ ''.lattice_filepath'',
                        get_value = StringValue path\<rparr> # post) s
              = (s', Inl (LoadError path))
           \<and> a_star s' = a_star s \<and> smoother s' = smoother s \<and> metadata s' = metadata s
           \<and> minimum_turning_radius (search_info s')
               = minimum_turning_radius (search_info s)
           \<and> lattice_filepath (search_info s') = path"
proof -
  from update_parameters_other [OF assms(2), of env False False]
  obtain s1 ra1 where 1: "update_parameters env pre (s, False, False) = Inr (s1, ra1, False)"
    and k: "plugin_name s1 = plugin_name s" "a_star s1 = a_star s" "smoother s1 = smoother s"
      "metadata s1 = metadata s"
      "minimum_turning_radius (search_info s1) = minimum_turning_radius (search_info s)"
    by blast
  have "dynamicParametersCallback env
          (pre @ \<lparr>get_name = plugin_name s @ ''.lattice_filepath'',
                  get_value = StringValue path\<rparr> # post) s
        = (set_info (\<lambda>i. i\<lparr>lattice_filepath := path\<rparr>) s1, Inl (LoadError path))"
    using 1 update_parameter_load_fails [OF assms(1), of s1 ra1 False] k(1)
    by (simp add: dynamicParametersCallback_def update_parameters_append)
  then show ?thesis
    using k by (simp add: set_info_def)
qed


theorem failed_lattice_load_keeps_engine_witness:
  "\<exists>s'. dynamicParametersCallback example_env
           [\<lparr>get_name = ''GridBased.max_planning_time'', get_value = DoubleValue (Fin 3)\<rparr>,
            \<lparr>get_name = ''GridBased.lattice_filepath'', get_value = StringValue ''/missing.json''\<rparr>]
           (example_planner 1000000)
         = (s', Inl (LoadError ''/missing.json''))
      \<and> a_star s' = a_star (example_planner 1000000)
      \<and> smoother s' = smoother (example_planner 1000000)
      \<and> metadata s' = metadata (example_planner 1000000)
      \<and> minimum_turning_radius (search_info s')
          = minimum_turning_radius (search_info (example_planner 1000000))
      \<and> lattice_filepath (search_info s') = ''/missing.json''"
  using failed_lattice_load_keeps_engine
    [where env = example_env and path = "''/missing.json''" and s = "example_planner 1000000"
       and pre = "[\<lparr>get_name = ''GridBased.max_planning_time'', get_value = DoubleValue (Fin 3)\<rparr>]"
       and post = "[]"]
  by (simp add: example_env_def example_plugin_name sets_lattice_file_def get_type_def)

text \<open>
  C6 as stated fails for the configured file path: line 365 stores the new path before
  line 366 loads it.
\<close>

theorem failed_lattice_load_changes_path_counterexample:
  "dynamicParametersCallback example_env
     [\<lparr>get_name = ''GridBased.lattice_filepath'', get_value = StringValue ''/missing.json''\<rparr>]
     (example_planner 1000000)
     = ((example_planner 1000000)
          \<lparr>search_info := example_info\<lparr>lattice_filepath := ''/missing.json''\<rparr>\<rparr>,
        Inl (LoadError ''/missing.json''))
   \<and> lattice_filepath (search_info (example_planner 1000000)) = ''/share/default_model.json''
   \<and> lattice_filepath (search_info ((example_planner 1000000)
          \<lparr>search_info := example_info\<lparr>lattice_filepath := ''/missing.json''\<rparr>\<rparr>))
       \<noteq> lattice_filepath (search_info (example_planner 1000000))"
  by (simp add: dynamicParametersCallback_def update_parameter_def getLatticeMetadata_def
       set_info_def example_env_def example_planner_def example_info_def)

text \<open>
  \<open>recognized\<close> holds of exactly the parameters that the loop acts on: for them, and for
  no other, a step of the loop sets a flag, stores a value or throws.
\<close>

lemma recognized_iff:
  "recognized s p \<longleftrightarrow> update_parameter env p (s, False, rs) \<noteq> Inr (s, False, rs)"
  by (cases "get_value p")
     (auto simp: recognized_def get_type_def update_parameter_def Let_def getLatticeMetadata_def
        split: option.splits)

lemma update_parameter_unrecognized:
  assumes "\<not> recognized s p"
  shows "update_parameter env p (s, ra, rs) = Inr (s, ra, rs)"
  using assms
  by (cases "get_value p")
     (auto simp: recognized_def get_type_def update_parameter_def Let_def)

lemma update_parameters_unrecognized:
  assumes "\<forall>p\<in>set ps. \<not> recognized s p"
  shows "update_parameters env ps (s, ra, rs) = Inr (s, ra, rs)"
  using assms by (induction ps) (simp_all add: update_parameter_unrecognized)

lemma callback_unrecognized:
  assumes "\<forall>p\<in>set ps. \<not> recognized s p"
  shows "dynamicParametersCallback env ps s = (s, Inr \<lparr>successful = True\<rparr>)"
  by (simp add: dynamicParametersCallback_def update_parameters_unrecognized [OF assms]
       reinitialize_def)

lemma update_parameter_returns:
  assumes "\<forall>path. sets_lattice_file s p \<longrightarrow> get_value p = StringValue path
             \<longrightarrow> lattice_files env path \<noteq> None"
    and "\<forall>d. get_name p = plugin_name s @ ''.lookup_table_size'' \<longrightarrow> get_value p = DoubleValue d
             \<longrightarrow> lookup_table_dim d (getResolution env) \<noteq> None"
    and "lookup_table_dim (lookup_table_size s) (getResolution env) \<noteq> None"
  shows "\<exists>s1 ra1 rs1. update_parameter env p (s, ra, rs) = Inr (s1, ra1, rs1)
           \<and> plugin_name s1 = plugin_name s
           \<and> lookup_table_dim (lookup_table_size s1) (getResolution env) \<noteq> None"
proof (cases "get_value p")
  case (StringValue path)
  with assms show ?thesis
    by (auto simp: update_parameter_def sets_lattice_file_def get_type_def set_info_def
          getLatticeMetadata_def Let_def split: option.splits)
next
  case (DoubleValue d)
  with assms show ?thesis
    by (auto simp: update_parameter_def set_info_def Let_def)
qed (use assms in \<open>auto simp: update_parameter_def set_info_def Let_def\<close>)

lemma update_parameters_return:
  assumes "\<forall>p\<in>set ps. \<forall>path. sets_lattice_file s p \<longrightarrow> get_value p = StringValue path
             \<longrightarrow> lattice_files env path \<noteq> None"
    and "\<forall>p\<in>set ps. \<forall>d. get_name p = plugin_name s @ ''.lookup_table_size''
             \<longrightarrow> get_value p = DoubleValue d
             \<longrightarrow> lookup_table_dim d (getResolution env) \<noteq> None"
    and "lookup_table_dim (lookup_table_size s) (getResolution env) \<noteq> None"
  shows "\<exists>s1 ra1 rs1. update_parameters env ps (s, ra, rs) = Inr (s1, ra1, rs1)
           \<and> lookup_table_dim (lookup_table_size s1) (getResolution env) \<noteq> None"
  using assms
proof (induction ps arbitrary: s ra rs)
  case Nil
  then show ?case by simp
next
  case (Cons p ps)
  have "\<exists>s1 ra1 rs1. update_parameter env p (s, ra, rs) = Inr (s1, ra1, rs1)
           \<and> plugin_name s1 = plugin_name s
           \<and> lookup_table_dim (lookup_table_size s1) (getResolution env) \<noteq> None"
    using Cons.prems by (intro update_parameter_returns) simp_all
  then obtain s1 ra1 rs1 where 1: "update_parameter env p (s, ra, rs) = Inr (s1, ra1, rs1)"
    and n: "plugin_name s1 = plugin_name s"
    and d: "lookup_table_dim (lookup_table_size s1) (getResolution env) \<noteq> None"
    by blast
  have "\<exists>s2 ra2 rs2. update_parameters env ps (s1, ra1, rs1) = Inr (s2, ra2, rs2)
           \<and> lookup_table_dim (lookup_table_size s2) (getResolution env) \<noteq> None"
    using Cons.prems n d by (intro Cons.IH) (simp_all add: sets_lattice_file_def)
  with 1 show ?case by simp
qed

lemma reinitialize_returns:
  assumes "lookup_table_dim (lookup_table_size s) (getResolution env) \<noteq> None"
  shows "\<exists>s'. reinitialize env (s, ra, rs) = Inr s'"
  using assms by (auto simp: reinitialize_def set_info_def Let_def)


lemma example_dim_10: "lookup_table_dim (Fin 10) (Fin (1 / 2)) = Some (Fin 21)"
  by (simp add: fl_eval)

lemma example_radius_2: "grid_turning_radius (Fin 2) (Fin (1 / 2)) = Fin 4"
  by (simp add: fl_eval)

lemma example_radius_4: "grid_turning_radius (Fin 4) (Fin (1 / 2)) = Fin 8"
  by (simp add: fl_eval)

lemma large_quotient:
  "to_int (fp_div round32 (to_float (Fin 16777216)) (to_float (Fin 1))) = Some 16777216"
  by (simp add: fl_eval)

lemma large_dim: "lookup_table_dim (Fin 16777216) (Fin 1) = Some (Fin 16777216)"
  by (simp add: fl_eval)

text \<open>
  C10 (amended). The callback returns \<open>successful = true\<close> for every list in which each
  lattice file named loads and each table size, with the one of the planner, gives a
  dimension that converts to \<open>int\<close>. A parameter that no branch of the loop recognizes
  leaves the planner and the two flags as they are, and a list of such parameters leaves
  the whole planner unchanged.
\<close>

theorem callback_reports_success:
  "((\<forall>p\<in>set ps. \<forall>path. sets_lattice_file s p \<longrightarrow> get_value p = StringValue path
        \<longrightarrow> lattice_files env path \<noteq> None)
     \<and> (\<forall>p\<in>set ps. \<forall>d. get_name p = plugin_name s @ ''.lookup_table_size''
        \<longrightarrow> get_value p = DoubleValue d \<longrightarrow> lookup_table_dim d (getResolution env) \<noteq> None)
     \<and> lookup_table_dim (lookup_table_size s) (getResolution env) \<noteq> None
     \<longrightarrow> snd (dynamicParametersCallback env ps s) = Inr \<lparr>successful = True\<rparr>)
   \<and> (\<not> recognized s p \<longrightarrow> update_parameter env p (s, ra, rs) = Inr (s, ra, rs))
   \<and> ((\<forall>p\<in>set ps. \<not> recognized s p)
        \<longrightarrow> dynamicParametersCallback env ps s = (s, Inr \<lparr>successful = True\<rparr>))"
proof (intro conjI impI)
  assume a: "(\<forall>p\<in>set ps. \<forall>path. sets_lattice_file s p \<longrightarrow> get_value p = StringValue path
        \<longrightarrow> lattice_files env path \<noteq> None)
     \<and> (\<forall>p\<in>set ps. \<forall>d. get_name p = plugin_name s @ ''.lookup_table_size''
        \<longrightarrow> get_value p = DoubleValue d \<longrightarrow> lookup_table_dim d (getResolution env) \<noteq> None)
     \<and> lookup_table_dim (lookup_table_size s) (getResolution env) \<noteq> None"
  have "\<exists>s1 ra1 rs1. update_parameters env ps (s, False, False) = Inr (s1, ra1, rs1)
           \<and> lookup_table_dim (lookup_table_size s1) (getResolution env) \<noteq> None"
    using a by (intro update_parameters_return) blast+
  then obtain s1 ra1 rs1 where 1: "update_parameters env ps (s, False, False) = Inr (s1, ra1, rs1)"
    and d: "lookup_table_dim (lookup_table_size s1) (getResolution env) \<noteq> None"
    by blast
  from reinitialize_returns [OF d, of ra1 rs1]
  obtain s' where 2: "reinitialize env (s1, ra1, rs1) = Inr s'" by blast
  show "snd (dynamicParametersCallback env ps s) = Inr \<lparr>successful = True\<rparr>"
    using 1 2 by (simp add: dynamicParametersCallback_def)
next
  assume "\<not> recognized s p"
  then show "update_parameter env p (s, ra, rs) = Inr (s, ra, rs)"
    by (rule update_parameter_unrecognized)
next
  assume "\<forall>p\<in>set ps. \<not> recognized s p"
  then show "dynamicParametersCallback env ps s = (s, Inr \<lparr>successful = True\<rparr>)"
    by (rule callback_unrecognized)
qed

lemma example_table_size: "lookup_table_size (example_planner k) = Fin 20"
  by (simp add: example_planner_def)

theorem callback_reports_success_witness:
  "snd (dynamicParametersCallback example_env
          [\<lparr>get_name = ''GridBased.lookup_table_size'', get_value = DoubleValue (Fin 10)\<rparr>,
           \<lparr>get_name = ''GridBased.lattice_filepath'',
             get_value = StringValue ''/share/default_model.json''\<rparr>]
          (example_planner 1000000)) = Inr \<lparr>successful = True\<rparr>
   \<and> update_parameter example_env
         \<lparr>get_name = ''GridBased.max_iterations'', get_value = DoubleValue (Fin 3)\<rparr>
         (example_planner 1000000, False, False)
       = Inr (example_planner 1000000, False, False)
   \<and> dynamicParametersCallback example_env
         [\<lparr>get_name = ''GridBased.max_iterations'', get_value = DoubleValue (Fin 3)\<rparr>,
          \<lparr>get_name = ''GridBased.speed'', get_value = IntegerValue 3\<rparr>]
         (example_planner 1000000)
       = (example_planner 1000000, Inr \<lparr>successful = True\<rparr>)"
  using callback_reports_success
    [where env = example_env and s = "example_planner 1000000"
       and ps = "[\<lparr>get_name = ''GridBased.lookup_table_size'', get_value = DoubleValue (Fin 10)\<rparr>,
           \<lparr>get_name = ''GridBased.lattice_filepath'',
             get_value = StringValue ''/share/default_model.json''\<rparr>]"
       and p = "\<lparr>get_name = ''GridBased.max_iterations'', get_value = DoubleValue (Fin 3)\<rparr>"
       and ra = False and rs = False]
    callback_reports_success
    [where env = example_env and s = "example_planner 1000000"
       and ps = "[\<lparr>get_name = ''GridBased.max_iterations'', get_value = DoubleValue (Fin 3)\<rparr>,
          \<lparr>get_name = ''GridBased.speed'', get_value = IntegerValue 3\<rparr>]"
       and p = "\<lparr>get_name = ''GridBased.speed'', get_value = IntegerValue 3\<rparr>"
       and ra = False and rs = False]
  by (simp add: example_plugin_name example_table_size sets_lattice_file_def recognized_def
       get_type_def example_dim example_dim_10 example_env_def)

text \<open>
  C10 as stated fails: for a list that names a lattice file that does not load, the callback
  ends with the exception and reports nothing.
\<close>

theorem failed_load_is_not_success_counterexample:
  "snd (dynamicParametersCallback example_env
          [\<lparr>get_name = ''GridBased.lattice_filepath'', get_value = StringValue ''/nowhere.json''\<rparr>]
          (example_planner 1000000)) = Inl (LoadError ''/nowhere.json'')
   \<and> snd (dynamicParametersCallback example_env
          [\<lparr>get_name = ''GridBased.lattice_filepath'', get_value = StringValue ''/nowhere.json''\<rparr>]
          (example_planner 1000000)) \<noteq> Inr \<lparr>successful = True\<rparr>"
  by (simp add: dynamicParametersCallback_def update_parameter_def getLatticeMetadata_def
       set_info_def example_env_def example_planner_def example_info_def)


section \<open>The derived quantities at a rebuild\<close>

lemmas callback_eval = dynamicParametersCallback_def update_parameter_def reinitialize_def
  getLatticeMetadata_def set_info_def make_a_star_def make_smoother_def

text \<open>
  What \<open>configure\<close> gives the engine is the metadata's radius over the resolution; what
  a rebuild after an update of \<open>max_planning_time\<close> gives it is the stored radius over
  the resolution.
\<close>

lemma configure_turning_radius:
  assumes "configure env node nm s0 = Inr s"
  shows "map_option (minimum_turning_radius \<circ> a_search_info) (a_star s)
           = Some (grid_turning_radius (min_turning_radius (metadata s)) (getResolution env))"
  using assms
  by (auto simp: configure_eq configured_def make_a_star_def split: option.splits)

lemma rebuild_turning_radius:
  assumes "dynamicParametersCallback env
             [\<lparr>get_name = plugin_name s @ ''.max_planning_time'', get_value = DoubleValue d\<rparr>] s
           = (s', Inr r)"
  shows "map_option (minimum_turning_radius \<circ> a_search_info) (a_star s')
           = Some (grid_turning_radius (minimum_turning_radius (search_info s))
                     (getResolution env))"
  using assms
  by (auto simp: callback_eval Let_def split: option.splits)

text \<open>
  C1 fails on the code. \<open>configure\<close> gives the engine the metadata's radius divided by
  the resolution (\<open>1.0 / 0.5 = 2.0\<close>). The callback divides the stored, already grid-scaled
  radius by the resolution once more at every rebuild (line 377): an update of
  \<open>max_planning_time\<close> to the value it has gives the engine \<open>4.0\<close>, a second one \<open>8.0\<close>,
  and an update of the lattice file gives \<open>4.0\<close>, where the metadata's radius divided by
  the resolution is \<open>2.0\<close> throughout.
\<close>

theorem turning_radius_divided_at_every_rebuild:
  "configure example_env default_node ''GridBased'' new_planner = Inr (example_planner 1000000)
   \<and> map_option (minimum_turning_radius \<circ> a_search_info) (a_star (example_planner 1000000))
       = Some (Fin 2)
   \<and> dynamicParametersCallback example_env
        [\<lparr>get_name = ''GridBased.max_planning_time'', get_value = DoubleValue (Fin 5)\<rparr>]
        (example_planner 1000000)
       = (example_reconfigured 4, Inr \<lparr>successful = True\<rparr>)
   \<and> dynamicParametersCallback example_env
        [\<lparr>get_name = ''GridBased.max_planning_time'', get_value = DoubleValue (Fin 5)\<rparr>]
        (example_reconfigured 4)
       = (example_reconfigured 8, Inr \<lparr>successful = True\<rparr>)
   \<and> dynamicParametersCallback example_env
        [\<lparr>get_name = ''GridBased.lattice_filepath'',
           get_value = StringValue ''/share/default_model.json''\<rparr>]
        (example_reconfigured 8)
       = (example_reconfigured 4, Inr \<lparr>successful = True\<rparr>)
   \<and> map_option (minimum_turning_radius \<circ> a_search_info) (a_star (example_reconfigured 4))
       = Some (Fin 4)
   \<and> map_option (minimum_turning_radius \<circ> a_search_info) (a_star (example_reconfigured 8))
       = Some (Fin 8)
   \<and> grid_turning_radius (min_turning_radius (metadata (example_reconfigured 4)))
         (getResolution example_env) = Fin 2
   \<and> grid_turning_radius (min_turning_radius (metadata (example_reconfigured 8)))
         (getResolution example_env) = Fin 2"
proof -
  have 1: "dynamicParametersCallback example_env
        [\<lparr>get_name = ''GridBased.max_planning_time'', get_value = DoubleValue (Fin 5)\<rparr>]
        (example_planner 1000000)
       = (example_reconfigured 4, Inr \<lparr>successful = True\<rparr>)"
    by (simp add: callback_eval example_reconfigured_def example_planner_def example_info_def
         example_env_def example_dim example_radius_2)
  have 2: "dynamicParametersCallback example_env
        [\<lparr>get_name = ''GridBased.max_planning_time'', get_value = DoubleValue (Fin 5)\<rparr>]
        (example_reconfigured 4)
       = (example_reconfigured 8, Inr \<lparr>successful = True\<rparr>)"
    by (simp add: callback_eval example_reconfigured_def example_planner_def example_info_def
         example_env_def example_dim example_radius_4)
  have 3: "dynamicParametersCallback example_env
        [\<lparr>get_name = ''GridBased.lattice_filepath'',
           get_value = StringValue ''/share/default_model.json''\<rparr>]
        (example_reconfigured 8)
       = (example_reconfigured 4, Inr \<lparr>successful = True\<rparr>)"
    by (simp add: callback_eval example_reconfigured_def example_planner_def example_info_def
         example_env_def example_dim example_radius example_radius_2)
  have 4: "grid_turning_radius (min_turning_radius (metadata (example_reconfigured r)))
         (getResolution example_env) = Fin 2" for r
    by (simp add: example_reconfigured_def example_planner_def example_env_def example_radius)
  have 5: "map_option (minimum_turning_radius \<circ> a_search_info) (a_star (example_reconfigured r))
       = Some (Fin r)" for r
    by (simp add: example_reconfigured_def)
  have 6: "map_option (minimum_turning_radius \<circ> a_search_info) (a_star (example_planner 1000000))
       = Some (Fin 2)"
    by (simp add: example_planner_def example_info_def)
  show ?thesis
    using configure_example_default 1 2 3 4 5 6 by blast
qed

text \<open>
  C2 fails on the code for a table of \<open>2^24\<close> cells or more. For the size \<open>16777216.0\<close>
  and the resolution \<open>1.0\<close> the quotient truncates to the even count \<open>16777216\<close>; the
  sum \<open>16777217\<close> is not a \<open>float\<close> and is rounded back to \<open>16777216\<close>, which
  \<open>configure\<close> and the callback hand to the engine.
\<close>

theorem lookup_table_dimension_stays_even:
  "to_int (fp_div round32 (to_float (Fin 16777216)) (to_float (Fin 1))) = Some 16777216
   \<and> even (16777216 :: int)
   \<and> lookup_table_dim (Fin 16777216) (Fin 1) = Some (Fin 16777216)
   \<and> map_sum id (map_option a_lookup_table_size \<circ> a_star)
        (configure (example_env\<lparr>getResolution := Fin 1\<rparr>)
           (default_node\<lparr>p_lookup_table_size := Some (Fin 16777216)\<rparr>) ''GridBased'' new_planner)
       = Inr (Some (Fin 16777216))
   \<and> map_prod (map_option a_lookup_table_size \<circ> a_star) id
        (dynamicParametersCallback (example_env\<lparr>getResolution := Fin 1\<rparr>)
           [\<lparr>get_name = ''GridBased.lookup_table_size'', get_value = DoubleValue (Fin 16777216)\<rparr>]
           (example_planner 1000000))
       = (Some (Fin 16777216), Inr \<lparr>successful = True\<rparr>)"
proof -
  have 1: "map_sum id (map_option a_lookup_table_size \<circ> a_star)
        (configure (example_env\<lparr>getResolution := Fin 1\<rparr>)
           (default_node\<lparr>p_lookup_table_size := Some (Fin 16777216)\<rparr>) ''GridBased'' new_planner)
       = Inr (Some (Fin 16777216))"
    by (simp add: configure_eq declared_or_def example_env_def default_node_def large_dim
         make_a_star_def)
  have 2: "map_prod (map_option a_lookup_table_size \<circ> a_star) id
        (dynamicParametersCallback (example_env\<lparr>getResolution := Fin 1\<rparr>)
           [\<lparr>get_name = ''GridBased.lookup_table_size'', get_value = DoubleValue (Fin 16777216)\<rparr>]
           (example_planner 1000000))
       = (Some (Fin 16777216), Inr \<lparr>successful = True\<rparr>)"
    by (simp add: callback_eval example_planner_def example_env_def large_dim)
  have 3: "even (16777216 :: int)" by simp
  show ?thesis
    using large_quotient large_dim 1 2 3 by blast
qed

end
